theory Spec2Isabelle
  imports Complex_Main "HOL-Library.Sublist"
begin

section \<open>Python values\<close>

text \<open>
  The bridge of \<^verbatim>\<open>apps/knowledge-base/knowledge_bridge.py\<close> moves JSON-like Python
  values between a backend object and standard output. A Python \<^verbatim>\<open>str\<close> is a sequence
  of code points, so it is modelled as a list of naturals; \<open>ustr\<close> embeds an ASCII
  literal of the source. A \<^verbatim>\<open>dict\<close> is an association list in insertion order whose
  keys are distinct strings (looked up with \<open>map_of\<close>), a \<^verbatim>\<open>float\<close> is a real number
  (no NaN, no infinities; the bridge never computes with one).
\<close>

type_synonym pystr = "nat list"

definition ustr :: "string \<Rightarrow> pystr" where
  "ustr s = map of_char s"

datatype pyval =
    PNone
  | PBool bool
  | PInt int
  | PFloat real
  | PStr pystr
  | PList "pyval list"
  | PDict "(pystr \<times> pyval) list"

text \<open>
  An exception that \<^verbatim>\<open>except Exception\<close> catches: the name of its class and the text
  \<^verbatim>\<open>str(e)\<close>. The messages of the interpreter's own exceptions follow CPython 3.11.
\<close>

datatype exn = Exn (exn_class: string) (exn_str: pystr)

definition ebind :: "exn + 'a \<Rightarrow> ('a \<Rightarrow> exn + 'b) \<Rightarrow> exn + 'b" where
  "ebind m f = (case m of Inl e \<Rightarrow> Inl e | Inr v \<Rightarrow> f v)"

text \<open>\<^verbatim>\<open>str(n)\<close> for a non-negative integer: its decimal digits.\<close>

fun str_nat :: "nat \<Rightarrow> pystr" where
  "str_nat n = (if n < 10 then [48 + n] else str_nat (n div 10) @ [48 + n mod 10])"

declare str_nat.simps [simp del]

fun type_name :: "pyval \<Rightarrow> string" where
  "type_name PNone = ''NoneType''"
| "type_name (PBool _) = ''bool''"
| "type_name (PInt _) = ''int''"
| "type_name (PFloat _) = ''float''"
| "type_name (PStr _) = ''str''"
| "type_name (PList _) = ''list''"
| "type_name (PDict _) = ''dict''"

text \<open>The truth value Python gives a value in \<^verbatim>\<open>x if c else y\<close> and \<^verbatim>\<open>c and d\<close>.\<close>

fun truthy :: "pyval \<Rightarrow> bool" where
  "truthy PNone = False"
| "truthy (PBool b) = b"
| "truthy (PInt i) = (i \<noteq> 0)"
| "truthy (PFloat x) = (x \<noteq> 0)"
| "truthy (PStr s) = (s \<noteq> [])"
| "truthy (PList xs) = (xs \<noteq> [])"
| "truthy (PDict d) = (d \<noteq> [])"

text \<open>\<^verbatim>\<open>len(x)\<close>\<close>

fun py_len :: "pyval \<Rightarrow> exn + nat" where
  "py_len (PStr s) = Inr (length s)"
| "py_len (PList xs) = Inr (length xs)"
| "py_len (PDict d) = Inr (length d)"
| "py_len v = Inl (Exn ''TypeError''
     (ustr (''object of type '' @ [CHR 0x27] @ type_name v @ [CHR 0x27] @ '' has no len()'')))"

definition not_subscriptable :: "pyval \<Rightarrow> exn" where
  "not_subscriptable v =
     Exn ''TypeError'' (ustr ([CHR 0x27] @ type_name v @ [CHR 0x27] @ '' object is not subscriptable''))"

text \<open>
  \<^verbatim>\<open>x["k"]\<close> for a literal key of the source (the four keys the bridge reads have no
  character that \<^verbatim>\<open>repr\<close> escapes, so the text of the KeyError is the key in quotes).
\<close>

fun getitem_key :: "pyval \<Rightarrow> string \<Rightarrow> exn + pyval" where
  "getitem_key (PDict d) k =
     (case map_of d (ustr k) of
        Some v \<Rightarrow> Inr v
      | None \<Rightarrow> Inl (Exn ''KeyError'' (ustr ([CHR 0x27] @ k @ [CHR 0x27]))))"
| "getitem_key (PList xs) k =
     Inl (Exn ''TypeError'' (ustr ''list indices must be integers or slices, not str''))"
| "getitem_key (PStr s) k =
     Inl (Exn ''TypeError'' (ustr (''string indices must be integers, not '' @ [CHR 0x27] @ ''str'' @ [CHR 0x27])))"
| "getitem_key v k = Inl (not_subscriptable v)"

text \<open>
  \<^verbatim>\<open>x[i]\<close> for a non-negative integer index (the bridge uses \<open>0\<close> and the loop
  variable of \<^verbatim>\<open>range\<close>). A dict of the model has string keys only, so an integer key
  is never found.
\<close>

fun getitem_idx :: "pyval \<Rightarrow> nat \<Rightarrow> exn + pyval" where
  "getitem_idx (PList xs) i =
     (if i < length xs then Inr (xs ! i)
      else Inl (Exn ''IndexError'' (ustr ''list index out of range'')))"
| "getitem_idx (PStr s) i =
     (if i < length s then Inr (PStr [s ! i])
      else Inl (Exn ''IndexError'' (ustr ''string index out of range'')))"
| "getitem_idx (PDict d) i = Inl (Exn ''KeyError'' (str_nat i))"
| "getitem_idx v i = Inl (not_subscriptable v)"

text \<open>\<^verbatim>\<open>x.get("k", default)\<close>: only a dict has the method.\<close>

fun dict_get :: "pyval \<Rightarrow> string \<Rightarrow> pyval \<Rightarrow> exn + pyval" where
  "dict_get (PDict d) k dflt = Inr (case map_of d (ustr k) of Some v \<Rightarrow> v | None \<Rightarrow> dflt)"
| "dict_get v k dflt =
     Inl (Exn ''AttributeError''
       (ustr ([CHR 0x27] @ type_name v @ [CHR 0x27] @ '' object has no attribute '' @ [CHR 0x27] @ ''get'' @ [CHR 0x27])))"

section \<open>The backend\<close>

text \<open>
  \<^verbatim>\<open>FSHDPDFProcessor\<close> is imported, not defined, by the bridge: it is a parameter of
  the model. Each of the four things the bridge does with it either raises or returns a
  value: constructing it (\<^verbatim>\<open>FSHDPDFProcessor()\<close>), the similarity search, the
  statistics call and \<^verbatim>\<open>collection.count()\<close>.
\<close>

record backend =
  FSHDPDFProcessor_init :: "exn option"
  search_fshd_knowledge :: "pyval \<Rightarrow> pyval \<Rightarrow> pyval \<Rightarrow> exn + pyval"
  get_collection_stats :: "exn + pyval"
  collection_count :: "exn + pyval"

section \<open>KnowledgeBridge\<close>

text \<open>\<^verbatim>\<open>results[k][0][i]\<close>\<close>

definition cell :: "pyval \<Rightarrow> string \<Rightarrow> nat \<Rightarrow> exn + pyval" where
  "cell results k i =
     ebind (ebind (getitem_key results k) (\<lambda>col. getitem_idx col 0)) (\<lambda>row. getitem_idx row i)"

text \<open>\<^verbatim>\<open>len(results["documents"][0])\<close>\<close>

definition len_documents0 :: "pyval \<Rightarrow> exn + nat" where
  "len_documents0 results =
     ebind (ebind (getitem_key results ''documents'') (\<lambda>col. getitem_idx col 0)) py_len"

text \<open>
  The dict appended for index \<open>i\<close> (lines 67 to 72); its four values are evaluated in
  the order written, each conditional expression testing its condition first.
\<close>

definition result_item :: "pyval \<Rightarrow> nat \<Rightarrow> exn + pyval" where
  "result_item results i =
     ebind (ebind (getitem_key results ''ids'')
              (\<lambda>ids. if truthy ids then cell results ''ids'' i
                      else Inr (PStr (ustr ''result_'' @ str_nat i)))) (\<lambda>id_v.
     ebind (cell results ''documents'' i) (\<lambda>content.
     ebind (ebind (getitem_key results ''metadatas'')
              (\<lambda>ms. if truthy ms then cell results ''metadatas'' i
                     else Inr (PDict []))) (\<lambda>metadata.
     ebind (ebind (dict_get results ''distances'' PNone)
              (\<lambda>ds. if truthy ds then cell results ''distances'' i
                     else Inr PNone)) (\<lambda>distance.
     Inr (PDict [(ustr ''id'', id_v), (ustr ''content'', content),
                 (ustr ''metadata'', metadata), (ustr ''distance'', distance)])))))"

text \<open>The \<^verbatim>\<open>for\<close> loop of line 66: one append per index, left at the first exception.\<close>

fun append_items :: "pyval \<Rightarrow> nat list \<Rightarrow> pyval list \<Rightarrow> exn + pyval list" where
  "append_items results [] acc = Inr acc"
| "append_items results (i # rest) acc =
     (case result_item results i of
        Inl e \<Rightarrow> Inl e
      | Inr item \<Rightarrow> append_items results rest (acc @ [item]))"

text \<open>Lines 58 to 74: the success envelope built from what the backend returned.\<close>

definition format_results :: "pyval \<Rightarrow> pyval \<Rightarrow> exn + pyval" where
  "format_results results question =
     ebind (ebind (getitem_key results ''documents'')
              (\<lambda>docs. if truthy docs then len_documents0 results else Inr 0)) (\<lambda>total.
     ebind (ebind (getitem_key results ''documents'')
              (\<lambda>docs. if truthy docs then ebind (len_documents0 results) (\<lambda>n. Inr (0 < n))
                       else Inr False)) (\<lambda>nonempty.
     ebind (if nonempty
            then ebind (len_documents0 results) (\<lambda>n. append_items results [0..<n] [])
            else Inr []) (\<lambda>items.
     Inr (PDict [(ustr ''success'', PBool True), (ustr ''question'', question),
                 (ustr ''total_results'', PInt (int total)),
                 (ustr ''results'', PList items)]))))"

text \<open>
  \<^verbatim>\<open>KnowledgeBridge.search\<close>: the backend call and the formatting stand in one
  \<^verbatim>\<open>try\<close>; \<open>search_try\<close> is its body.
\<close>

definition search_try :: "backend \<Rightarrow> pyval \<Rightarrow> pyval \<Rightarrow> pyval \<Rightarrow> exn + pyval" where
  "search_try b question n_results language_filter =
     ebind (search_fshd_knowledge b question n_results language_filter)
       (\<lambda>results. format_results results question)"

definition search :: "backend \<Rightarrow> pyval \<Rightarrow> pyval \<Rightarrow> pyval \<Rightarrow> pyval" where
  "search b question n_results language_filter =
     (case search_try b question n_results language_filter of
        Inr formatted \<Rightarrow> formatted
      | Inl e \<Rightarrow> PDict [(ustr ''success'', PBool False), (ustr ''error'', PStr (exn_str e)),
                        (ustr ''question'', question)])"

definition stats :: "backend \<Rightarrow> pyval" where
  "stats b =
     (case get_collection_stats b of
        Inr s \<Rightarrow> PDict [(ustr ''success'', PBool True), (ustr ''stats'', s)]
      | Inl e \<Rightarrow> PDict [(ustr ''success'', PBool False), (ustr ''error'', PStr (exn_str e))])"

definition health :: "backend \<Rightarrow> pyval" where
  "health b =
     (case collection_count b of
        Inr count \<Rightarrow> PDict [(ustr ''success'', PBool True), (ustr ''status'', PStr (ustr ''healthy'')),
                            (ustr ''collection'', PStr (ustr ''fshd_knowledge_base'')),
                            (ustr ''total_chunks'', count)]
      | Inl e \<Rightarrow> PDict [(ustr ''success'', PBool False), (ustr ''status'', PStr (ustr ''unhealthy'')),
                        (ustr ''error'', PStr (exn_str e))])"

section \<open>The process: \<^verbatim>\<open>main\<close>\<close>

text \<open>
  What \<^verbatim>\<open>parser.parse_args()\<close> returned (line 144). argparse itself rejects an
  unknown subcommand, a \<^verbatim>\<open>search\<close> without \<^verbatim>\<open>--question\<close> and an
  \<^verbatim>\<open>--n_results\<close> that is not an integer before line 146 is reached, so
  \<^verbatim>\<open>args.command\<close> is one of the three subcommands with its parsed flags, or
  \<^verbatim>\<open>None\<close> when no subcommand was given.
\<close>

datatype subcommand =
    Search_cmd pystr int "pystr option"
  | Stats_cmd
  | Health_cmd

record args =
  stdin :: bool
  command :: "subcommand option"

text \<open>
  What \<^verbatim>\<open>json.load(sys.stdin)\<close> does on standard input: it raises
  \<^verbatim>\<open>json.JSONDecodeError\<close> (with the text \<^verbatim>\<open>str(e)\<close>), it raises an
  exception of another class (RecursionError on deep nesting, ValueError on an integer
  of more than 4300 digits, UnicodeDecodeError on bytes that are not text), or it returns
  the value.
\<close>

datatype json_input = JSONDecodeError pystr | LoadRaised exn | Loaded pyval

text \<open>
  What the process leaves behind: the documents written to each stream, in order, and
  how it ended. An exception nobody catches prints a traceback on standard error and ends
  the process with status 1.
\<close>

datatype out_item = JsonDoc pyval | HelpText | Traceback exn

datatype ending = Exit int | Uncaught exn

record outcome =
  stdout :: "out_item list"
  stderr :: "out_item list"
  ending :: ending

fun exit_status :: "ending \<Rightarrow> int" where
  "exit_status (Exit n) = n"
| "exit_status (Uncaught e) = 1"

definition uncaught :: "exn \<Rightarrow> outcome" where
  "uncaught e = \<lparr>stdout = [], stderr = [Traceback e], ending = Uncaught e\<rparr>"

text \<open>
  Line 185, \<^verbatim>\<open>print(json.dumps(result, ensure_ascii=False, indent=2))\<close>, stands
  outside every \<^verbatim>\<open>try\<close>. What it does on a value depends on the process's
  standard output, so it is the parameter \<open>wr\<close>: \<open>None\<close> when the text is written
  (\<open>JsonDoc v\<close> stands for that text), after which \<^verbatim>\<open>main\<close> returns and the
  process ends with status 0; \<open>Some e\<close> when serialising or encoding raises \<open>e\<close>
  (a character the stream cannot encode, such as a lone surrogate on UTF-8), before
  anything is written.
\<close>

definition print_json :: "(pyval \<Rightarrow> exn option) \<Rightarrow> pyval \<Rightarrow> outcome" where
  "print_json wr result =
     (case wr result of
        None \<Rightarrow> \<lparr>stdout = [JsonDoc result], stderr = [], ending = Exit 0\<rparr>
      | Some e \<Rightarrow> uncaught e)"

text \<open>
  Lines 181 and 182: \<^verbatim>\<open>parser.print_help()\<close> is called without a \<^verbatim>\<open>file\<close>
  argument, so argparse writes the help text to \<^verbatim>\<open>sys.stdout\<close>; then
  \<^verbatim>\<open>sys.exit(1)\<close>.
\<close>

definition print_help_exit :: outcome where
  "print_help_exit = \<lparr>stdout = [HelpText], stderr = [], ending = Exit 1\<rparr>"

text \<open>
  The text an f-string puts for \<^verbatim>\<open>{command}\<close>. A str is put as it is, and
  \<^verbatim>\<open>None\<close>, a bool and an int have the texts below; the text of a float, a list or
  a dict is Python's \<^verbatim>\<open>repr\<close>, which the model takes as the parameter \<open>fmt\<close>.
  (An int that \<^verbatim>\<open>json.load\<close> returned has at most 4300 digits, so its
  conversion does not raise.)
\<close>

fun format_value :: "(pyval \<Rightarrow> pystr) \<Rightarrow> pyval \<Rightarrow> pystr" where
  "format_value fmt (PStr s) = s"
| "format_value fmt PNone = ustr ''None''"
| "format_value fmt (PBool b) = (if b then ustr ''True'' else ustr ''False'')"
| "format_value fmt (PInt i) = (if i < 0 then ustr ''-'' @ str_nat (nat (- i)) else str_nat (nat i))"
| "format_value fmt v = fmt v"

text \<open>Line 165: the prefix is the source's text (U+672A U+77E5 U+547D U+4EE4, colon, space).\<close>

definition unknown_command :: "(pyval \<Rightarrow> pystr) \<Rightarrow> pyval \<Rightarrow> pyval" where
  "unknown_command fmt cmd =
     PDict [(ustr ''success'', PBool False),
            (ustr ''error'', PStr ([26410, 30693, 21629, 20196, 58, 32] @ format_value fmt cmd))]"

text \<open>Line 167: \<^verbatim>\<open>JSON\<close>, then U+89E3 U+6790 U+9519 U+8BEF, colon, space, then \<^verbatim>\<open>str(e)\<close>.\<close>

definition json_error :: "pystr \<Rightarrow> pyval" where
  "json_error msg =
     PDict [(ustr ''success'', PBool False),
            (ustr ''error'', PStr (ustr ''JSON'' @ [35299, 26512, 38169, 35823, 58, 32] @ msg))]"

text \<open>
  Lines 150 to 167, the \<^verbatim>\<open>try\<close> of document mode. Its handler catches
  \<^verbatim>\<open>json.JSONDecodeError\<close> only: \<open>Inl e\<close> is an exception that leaves the block.
\<close>

definition document_mode :: "(pyval \<Rightarrow> pystr) \<Rightarrow> backend \<Rightarrow> json_input \<Rightarrow> exn + pyval" where
  "document_mode fmt b inp =
     (case inp of
        JSONDecodeError msg \<Rightarrow> Inr (json_error msg)
      | LoadRaised e \<Rightarrow> Inl e
      | Loaded input_data \<Rightarrow>
          ebind (dict_get input_data ''command'' (PStr (ustr ''search''))) (\<lambda>cmd.
            if cmd = PStr (ustr ''search'') then
              ebind (dict_get input_data ''question'' (PStr [])) (\<lambda>question.
              ebind (dict_get input_data ''n_results'' (PInt 3)) (\<lambda>n_results.
              ebind (dict_get input_data ''language'' PNone) (\<lambda>language.
              Inr (search b question n_results language))))
            else if cmd = PStr (ustr ''stats'') then Inr (stats b)
            else if cmd = PStr (ustr ''health'') then Inr (health b)
            else Inr (unknown_command fmt cmd)))"

text \<open>
  \<^verbatim>\<open>main\<close> from line 146 on. The bridge is constructed first, outside every
  \<^verbatim>\<open>try\<close>; \<^verbatim>\<open>KnowledgeBridge.__init__\<close> only calls \<^verbatim>\<open>FSHDPDFProcessor()\<close>.
\<close>

definition main ::
  "(pyval \<Rightarrow> pystr) \<Rightarrow> (pyval \<Rightarrow> exn option) \<Rightarrow> backend \<Rightarrow> args \<Rightarrow> json_input \<Rightarrow> outcome" where
  "main fmt wr b a inp =
     (case FSHDPDFProcessor_init b of
        Some e \<Rightarrow> uncaught e
      | None \<Rightarrow>
          if stdin a then
            (case document_mode fmt b inp of
               Inl e \<Rightarrow> uncaught e
             | Inr result \<Rightarrow> print_json wr result)
          else
            (case command a of
               Some (Search_cmd question n_results language) \<Rightarrow>
                 print_json wr (search b (PStr question) (PInt n_results)
                   (case language of None \<Rightarrow> PNone | Some l \<Rightarrow> PStr l))
             | Some Stats_cmd \<Rightarrow> print_json wr (stats b)
             | Some Health_cmd \<Rightarrow> print_json wr (health b)
             | None \<Rightarrow> print_help_exit))"

section \<open>Reading envelopes and backend results\<close>

text \<open>The value of a field of a JSON object, if the object has the field.\<close>

fun field :: "pyval \<Rightarrow> string \<Rightarrow> pyval option" where
  "field (PDict d) k = map_of d (ustr k)"
| "field v k = None"

definition results_of :: "pyval \<Rightarrow> pyval list" where
  "results_of env = (case field env ''results'' of Some (PList items) \<Rightarrow> items | _ \<Rightarrow> [])"

text \<open>
  The entry at index \<open>i\<close> of the first sequence the backend returned under key \<open>k\<close>,
  by Python's own subscripting; \<open>None\<close> when there is no such entry.
\<close>

definition entry :: "pyval \<Rightarrow> string \<Rightarrow> nat \<Rightarrow> pyval option" where
  "entry results k i = (case cell results k i of Inr v \<Rightarrow> Some v | Inl e \<Rightarrow> None)"

text \<open>The length of the first documents sequence, \<open>0\<close> when there is none.\<close>

definition documents_length :: "pyval \<Rightarrow> nat" where
  "documents_length results = (case len_documents0 results of Inr n \<Rightarrow> n | Inl e \<Rightarrow> 0)"

text \<open>The backend result carries no distances sequence: no such key, a null, or an empty value.\<close>

definition no_distances :: "pyval \<Rightarrow> bool" where
  "no_distances results =
     (case field results ''distances'' of None \<Rightarrow> True | Some ds \<Rightarrow> \<not> truthy ds)"


text \<open>The envelope \<^verbatim>\<open>search\<close> returns from its handler (lines 76 to 80).\<close>

definition search_failure :: "exn \<Rightarrow> pyval \<Rightarrow> pyval" where
  "search_failure e question =
     PDict [(ustr ''success'', PBool False), (ustr ''error'', PStr (exn_str e)),
            (ustr ''question'', question)]"

text \<open>The outcome of a run that wrote exactly this envelope and ended normally.\<close>

definition written :: "pyval \<Rightarrow> outcome" where
  "written env = \<lparr>stdout = [JsonDoc env], stderr = [], ending = Exit 0\<rparr>"

text \<open>
  The decimal numeral of a natural number, said without the conversion: a non-empty
  string of the digits 0 to 9 with no leading zero (but for the numeral 0) whose value
  is the number.
\<close>

definition is_decimal :: "pystr \<Rightarrow> nat \<Rightarrow> bool" where
  "is_decimal ds n =
     (ds \<noteq> [] \<and> list_all (\<lambda>c. 48 \<le> c \<and> c \<le> 57) ds \<and> (hd ds \<noteq> 48 \<or> ds = [48]) \<and>
      foldl (\<lambda>acc c. 10 * acc + (c - 48)) 0 ds = n)"

text \<open>
  The text Python's \<^verbatim>\<open>str\<close> gives a command value: a str itself, the names of
  \<^verbatim>\<open>None\<close>, \<^verbatim>\<open>True\<close> and \<^verbatim>\<open>False\<close>, the signed decimal numeral of an
  int, and the \<^verbatim>\<open>repr\<close> of a float, a list or a dict.
\<close>

fun command_text :: "(pyval \<Rightarrow> pystr) \<Rightarrow> pyval \<Rightarrow> pystr \<Rightarrow> bool" where
  "command_text fmt (PStr s) text = (text = s)"
| "command_text fmt PNone text = (text = ustr ''None'')"
| "command_text fmt (PBool b) text = (text = (if b then ustr ''True'' else ustr ''False''))"
| "command_text fmt (PInt i) text =
     (if i < 0 then text \<noteq> [] \<and> hd text = 45 \<and> is_decimal (tl text) (nat (- i))
      else is_decimal text (nat i))"
| "command_text fmt v text = (text = fmt v)"

section \<open>The backend of the spec\<close>

text \<open>
  Modelled from the spec: \<^verbatim>\<open>FSHDPDFProcessor.search_fshd_knowledge\<close>, the
  similarity search of the backend, is not part of the source. By the spec (section 6 and
  the glossary) it returns the \<open>k\<close> most relevant document chunks for a query,
  optionally restricted by a language tag, as the parallel sequences \<^verbatim>\<open>ids\<close>,
  \<^verbatim>\<open>documents\<close>, \<^verbatim>\<open>metadatas\<close> and \<^verbatim>\<open>distances\<close>, each nested one
  level; the result-count is a positive integer, and an invalid one is a failure of the
  backend. \<open>ranked q\<close> is the store's chunks in order of relevance to \<open>q\<close>, best first,
  each with its distance to \<open>q\<close>; \<open>refuse\<close> is the exception for an invalid
  result-count.
\<close>

record chunk =
  chunk_id :: pystr
  chunk_text :: pystr
  chunk_language :: pystr
  chunk_metadata :: "(pystr \<times> pyval) list"
  chunk_distance :: real

definition in_language :: "pyval \<Rightarrow> chunk \<Rightarrow> bool" where
  "in_language language_filter c =
     (case language_filter of PStr tag \<Rightarrow> chunk_language c = tag | _ \<Rightarrow> True)"

definition columns :: "chunk list \<Rightarrow> pyval" where
  "columns hits =
     PDict [(ustr ''ids'', PList [PList (map (\<lambda>c. PStr (chunk_id c)) hits)]),
            (ustr ''documents'', PList [PList (map (\<lambda>c. PStr (chunk_text c)) hits)]),
            (ustr ''metadatas'', PList [PList (map (\<lambda>c. PDict (chunk_metadata c)) hits)]),
            (ustr ''distances'', PList [PList (map (\<lambda>c. PFloat (chunk_distance c)) hits)])]"

text \<open>
  Modelled from the spec: the similarity search. A result-count that is not a positive
  integer is refused; otherwise the first \<open>k\<close> of the ranked chunks that pass the
  language filter are returned, column by column.
\<close>

definition similarity_search ::
  "(pyval \<Rightarrow> chunk list) \<Rightarrow> exn \<Rightarrow> pyval \<Rightarrow> pyval \<Rightarrow> pyval \<Rightarrow> exn + pyval" where
  "similarity_search ranked refuse question n_results language_filter =
     (case n_results of
        PInt k \<Rightarrow>
          if 0 < k
          then Inr (columns (take (nat k) (filter (in_language language_filter) (ranked question))))
          else Inl refuse
      | _ \<Rightarrow> Inl refuse)"

section \<open>Example backends\<close>

text \<open>A result with two hits and all four parallel sequences.\<close>

definition full_results :: pyval where
  "full_results =
     PDict [(ustr ''ids'', PList [PList [PStr (ustr ''c1''), PStr (ustr ''c2'')]]),
            (ustr ''documents'', PList [PList [PStr (ustr ''alpha''), PStr (ustr ''beta'')]]),
            (ustr ''metadatas'',
               PList [PList [PDict [(ustr ''language'', PStr (ustr ''en''))], PDict []]]),
            (ustr ''distances'', PList [PList [PFloat 0.25, PFloat 0.5]])]"

text \<open>Two hits, with null ids and metadatas and no distances key.\<close>

definition bare_results :: pyval where
  "bare_results =
     PDict [(ustr ''ids'', PNone),
            (ustr ''documents'', PList [PList [PStr (ustr ''alpha''), PStr (ustr ''beta'')]]),
            (ustr ''metadatas'', PNone)]"

text \<open>Ragged sequences: two documents, one id.\<close>

definition ragged_results :: pyval where
  "ragged_results =
     PDict [(ustr ''ids'', PList [PList [PStr (ustr ''c1'')]]),
            (ustr ''documents'', PList [PList [PStr (ustr ''alpha''), PStr (ustr ''beta'')]]),
            (ustr ''metadatas'', PNone)]"

text \<open>A backend that answers every search with the given result and counts seven chunks.\<close>

definition answering :: "pyval \<Rightarrow> backend" where
  "answering results =
     \<lparr>FSHDPDFProcessor_init = None,
      search_fshd_knowledge = (\<lambda>question n_results language_filter. Inr results),
      get_collection_stats = Inr (PDict [(ustr ''total_chunks'', PInt 7)]),
      collection_count = Inr (PInt 7)\<rparr>"

definition unreachable_error :: exn where
  "unreachable_error = Exn ''ConnectionError'' (ustr ''backend unreachable'')"

text \<open>A backend that is constructed, and whose every call raises.\<close>

definition unreachable :: backend where
  "unreachable =
     \<lparr>FSHDPDFProcessor_init = None,
      search_fshd_knowledge = (\<lambda>question n_results language_filter. Inl unreachable_error),
      get_collection_stats = Inl unreachable_error,
      collection_count = Inl unreachable_error\<rparr>"

text \<open>A backend whose constructor raises.\<close>

definition no_client :: backend where
  "no_client = unreachable\<lparr>FSHDPDFProcessor_init := Some unreachable_error\<rparr>"

text \<open>Stands for \<^verbatim>\<open>repr\<close> in the examples, none of which formats a float, a list or a dict.\<close>

definition repr_stub :: "pyval \<Rightarrow> pystr" where
  "repr_stub v = ustr ''<repr>''"

text \<open>Two hits whose first id and first metadata are null, as for a chunk stored without them.\<close>

definition null_entry_results :: pyval where
  "null_entry_results =
     PDict [(ustr ''ids'', PList [PList [PNone, PStr (ustr ''c2'')]]),
            (ustr ''documents'', PList [PList [PStr (ustr ''alpha''), PStr (ustr ''beta'')]]),
            (ustr ''metadatas'', PList [PList [PNone, PDict []]]),
            (ustr ''distances'', PList [PList [PFloat 0.25, PFloat 0.5]])]"

text \<open>A store of three chunks, ranked the same for every query, behind the backend of the spec.\<close>

definition example_ranked :: "pyval \<Rightarrow> chunk list" where
  "example_ranked question =
     [\<lparr>chunk_id = ustr ''c1'', chunk_text = ustr ''alpha'', chunk_language = ustr ''en'',
       chunk_metadata = [(ustr ''language'', PStr (ustr ''en''))], chunk_distance = 0.25\<rparr>,
      \<lparr>chunk_id = ustr ''c2'', chunk_text = ustr ''beta'', chunk_language = ustr ''zh'',
       chunk_metadata = [(ustr ''language'', PStr (ustr ''zh''))], chunk_distance = 0.5\<rparr>,
      \<lparr>chunk_id = ustr ''c3'', chunk_text = ustr ''gamma'', chunk_language = ustr ''en'',
       chunk_metadata = [(ustr ''language'', PStr (ustr ''en''))], chunk_distance = 0.75\<rparr>]"

definition spec_backend :: backend where
  "spec_backend =
     \<lparr>FSHDPDFProcessor_init = None,
      search_fshd_knowledge =
        similarity_search example_ranked (Exn ''ValueError'' (ustr ''invalid result count'')),
      get_collection_stats = Inr (PDict [(ustr ''total_chunks'', PInt 3)]),
      collection_count = Inr (PInt 3)\<rparr>"

text \<open>
  A standard output that encodes as strict UTF-8: it refuses a text with a surrogate code
  point, which \<^verbatim>\<open>json.dumps\<close> with \<^verbatim>\<open>ensure_ascii=False\<close> leaves as it is in
  every key and string. The text of the error is the one CPython gives for the envelope
  of the examples, where the surrogate stands at position 40.
\<close>

definition is_surrogate :: "nat \<Rightarrow> bool" where
  "is_surrogate c = (55296 \<le> c \<and> c \<le> 57343)"

fun has_surrogate :: "pyval \<Rightarrow> bool" where
  "has_surrogate (PStr s) = list_ex is_surrogate s"
| "has_surrogate (PList xs) = list_ex has_surrogate xs"
| "has_surrogate (PDict d) = list_ex (\<lambda>kv. list_ex is_surrogate (fst kv) \<or> has_surrogate (snd kv)) d"
| "has_surrogate v = False"

definition surrogate_error :: exn where
  "surrogate_error =
     Exn ''UnicodeEncodeError''
       (ustr ([CHR 0x27] @ ''utf-8'' @ [CHR 0x27] @ '' codec can'' @ [CHR 0x27] @
              ''t encode character '' @ [CHR 0x27, CHR 0x5C] @ ''ud800'' @ [CHR 0x27] @
              '' in position 40: surrogates not allowed''))"

definition utf8_stdout :: "pyval \<Rightarrow> exn option" where
  "utf8_stdout v = (if has_surrogate v then Some surrogate_error else None)"

text \<open>What \<^verbatim>\<open>json.load\<close> raises on a hundred thousand opening brackets.\<close>

definition recursion_error :: exn where
  "recursion_error =
     Exn ''RecursionError''
       (ustr ''maximum recursion depth exceeded while decoding a JSON array from a unicode string'')"

text \<open>What \<^verbatim>\<open>json.load\<close> would do on an empty standard input; flag mode never reads it.\<close>

definition empty_stdin :: json_input where
  "empty_stdin = JSONDecodeError (ustr ''Expecting value: line 1 column 1 (char 0)'')"

section \<open>Auxiliary facts\<close>

lemma ustr_eq_iff [simp]: "ustr a = ustr b \<longleftrightarrow> a = b"
  unfolding ustr_def by (simp add: inj_map_eq_map inj_of_char)

lemma ebind_Inl [simp]: "ebind (Inl e) f = Inl e"
  by (simp add: ebind_def)

lemma ebind_Inr [simp]: "ebind (Inr v) f = f v"
  by (simp add: ebind_def)

lemma ebind_eq_Inr: "ebind m f = Inr y \<longleftrightarrow> (\<exists>v. m = Inr v \<and> f v = Inr y)"
  by (cases m) simp_all

lemma ebind_eq_Inl: "ebind m f = Inl e \<longleftrightarrow> m = Inl e \<or> (\<exists>v. m = Inr v \<and> f v = Inl e)"
  by (cases m) simp_all

lemma getitem_idx_0_truthy: "getitem_idx col 0 = Inr row \<Longrightarrow> truthy col"
  by (cases col) (auto simp: not_subscriptable_def split: if_splits)

lemma getitem_key_field: "getitem_key results k = Inr v \<longleftrightarrow> field results k = Some v"
  by (cases results) (auto simp: not_subscriptable_def split: option.splits)

lemma dict_get_Inr: "dict_get results k dflt = Inr v \<Longrightarrow>
    v = (case field results k of Some w \<Rightarrow> w | None \<Rightarrow> dflt)"
  by (cases results) auto

lemma cell_Inr: "cell results k i = Inr v \<Longrightarrow>
    \<exists>col. field results k = Some col \<and> truthy col"
  by (auto simp: cell_def ebind_eq_Inr getitem_key_field dest: getitem_idx_0_truthy)

lemma append_items_Inr:
  "append_items results idxs acc = Inr out \<Longrightarrow>
     \<exists>items. out = acc @ items \<and> length items = length idxs \<and>
       (\<forall>j < length idxs. result_item results (idxs ! j) = Inr (items ! j))"
proof (induction idxs arbitrary: acc)
  case Nil
  then show ?case by simp
next
  case (Cons i rest)
  from Cons.prems obtain item where it: "result_item results i = Inr item"
    and rec: "append_items results rest (acc @ [item]) = Inr out"
    by (auto split: sum.splits)
  from Cons.IH [OF rec] obtain items where
    o: "out = (acc @ [item]) @ items" and l: "length items = length rest"
    and a: "\<forall>j < length rest. result_item results (rest ! j) = Inr (items ! j)"
    by blast
  have "\<forall>j < length (i # rest). result_item results ((i # rest) ! j) = Inr ((item # items) ! j)"
    using it a by (auto simp: nth_Cons split: nat.splits)
  with o l show ?case by (intro exI [of _ "item # items"]) simp
qed

lemma append_items_Inl:
  "i \<in> set idxs \<Longrightarrow> result_item results i = Inl e0 \<Longrightarrow>
     \<exists>e. append_items results idxs acc = Inl e"
proof (induction idxs arbitrary: acc)
  case Nil
  then show ?case by simp
next
  case (Cons j rest)
  then show ?case by (cases "result_item results j") auto
qed

lemma entry_None: "field results k = Some col \<Longrightarrow> \<not> truthy col \<Longrightarrow> entry results k i = None"
  using cell_Inr [of results k i] by (cases "cell results k i") (auto simp: entry_def)

lemma entry_absent: "field results k = None \<Longrightarrow> entry results k i = None"
  using cell_Inr [of results k i] by (cases "cell results k i") (auto simp: entry_def)

lemma entry_Some: "cell results k i = Inr v \<Longrightarrow> entry results k i = Some v"
  by (simp add: entry_def)

lemma id_value:
  assumes "ebind (getitem_key results ''ids'')
              (\<lambda>ids. if truthy ids then cell results ''ids'' i
                      else Inr (PStr (ustr ''result_'' @ str_nat i))) = Inr v"
  shows "v = (case entry results ''ids'' i of Some w \<Rightarrow> w
              | None \<Rightarrow> PStr (ustr ''result_'' @ str_nat i))"
  using assms
  by (auto simp: ebind_eq_Inr getitem_key_field entry_None entry_Some split: if_splits)

lemma metadata_value:
  assumes "ebind (getitem_key results ''metadatas'')
              (\<lambda>ms. if truthy ms then cell results ''metadatas'' i else Inr (PDict [])) = Inr v"
  shows "v = (case entry results ''metadatas'' i of Some w \<Rightarrow> w | None \<Rightarrow> PDict [])"
  using assms
  by (auto simp: ebind_eq_Inr getitem_key_field entry_None entry_Some split: if_splits)

lemma distance_value:
  assumes "ebind (dict_get results ''distances'' PNone)
              (\<lambda>ds. if truthy ds then cell results ''distances'' i else Inr PNone) = Inr v"
  shows "v = (case entry results ''distances'' i of Some w \<Rightarrow> w | None \<Rightarrow> PNone)"
proof -
  from assms obtain ds where g: "dict_get results ''distances'' PNone = Inr ds"
    and v: "(if truthy ds then cell results ''distances'' i else Inr PNone) = Inr v"
    by (auto simp: ebind_eq_Inr)
  show ?thesis
  proof (cases "truthy ds")
    case True
    with v show ?thesis by (simp add: entry_Some)
  next
    case False
    have "entry results ''distances'' i = None"
    proof (cases "field results ''distances''")
      case None
      then show ?thesis by (rule entry_absent)
    next
      case (Some col)
      with dict_get_Inr [OF g] False show ?thesis by (simp add: entry_None)
    qed
    with v False show ?thesis by simp
  qed
qed

lemma result_item_Inr:
  assumes "result_item results i = Inr item"
  shows "\<exists>content. entry results ''documents'' i = Some content \<and>
     item = PDict
       [(ustr ''id'', case entry results ''ids'' i of Some w \<Rightarrow> w
                      | None \<Rightarrow> PStr (ustr ''result_'' @ str_nat i)),
        (ustr ''content'', content),
        (ustr ''metadata'', case entry results ''metadatas'' i of Some w \<Rightarrow> w | None \<Rightarrow> PDict []),
        (ustr ''distance'', case entry results ''distances'' i of Some w \<Rightarrow> w | None \<Rightarrow> PNone)]"
proof -
  from assms obtain id_v content metadata distance where
    1: "ebind (getitem_key results ''ids'')
              (\<lambda>ids. if truthy ids then cell results ''ids'' i
                      else Inr (PStr (ustr ''result_'' @ str_nat i))) = Inr id_v"
    and 2: "cell results ''documents'' i = Inr content"
    and 3: "ebind (getitem_key results ''metadatas'')
              (\<lambda>ms. if truthy ms then cell results ''metadatas'' i else Inr (PDict [])) = Inr metadata"
    and 4: "ebind (dict_get results ''distances'' PNone)
              (\<lambda>ds. if truthy ds then cell results ''distances'' i else Inr PNone) = Inr distance"
    and 5: "item = PDict [(ustr ''id'', id_v), (ustr ''content'', content),
                 (ustr ''metadata'', metadata), (ustr ''distance'', distance)]"
    unfolding result_item_def ebind_eq_Inr by blast
  show ?thesis
    using id_value [OF 1] metadata_value [OF 3] distance_value [OF 4] 2 5
    by (simp add: entry_Some)
qed

lemma format_results_Inr:
  assumes "format_results results question = Inr env"
  shows "\<exists>items. env = PDict [(ustr ''success'', PBool True), (ustr ''question'', question),
                 (ustr ''total_results'', PInt (int (documents_length results))),
                 (ustr ''results'', PList items)] \<and>
     length items = documents_length results \<and>
     (\<forall>i < length items. result_item results i = Inr (items ! i))"
proof -
  from assms obtain total nonempty items docs where
    d: "getitem_key results ''documents'' = Inr docs"
    and t: "(if truthy docs then len_documents0 results else Inr 0) = Inr total"
    and n: "(if truthy docs then ebind (len_documents0 results) (\<lambda>n. Inr (0 < n))
                       else Inr False) = Inr nonempty"
    and i: "(if nonempty
            then ebind (len_documents0 results) (\<lambda>n. append_items results [0..<n] [])
            else Inr []) = Inr items"
    and e: "env = PDict [(ustr ''success'', PBool True), (ustr ''question'', question),
                 (ustr ''total_results'', PInt (int total)),
                 (ustr ''results'', PList items)]"
    unfolding format_results_def ebind_eq_Inr by auto
  have falsy: "documents_length results = 0" if "\<not> truthy docs"
  proof -
    have "len_documents0 results = Inr m \<Longrightarrow> False" for m
      using d that by (auto simp: len_documents0_def ebind_eq_Inr dest: getitem_idx_0_truthy)
    then show ?thesis by (cases "len_documents0 results") (auto simp: documents_length_def)
  qed
  have tot: "total = documents_length results"
    using t falsy by (auto simp: documents_length_def split: if_splits)
  have ne: "nonempty \<longleftrightarrow> 0 < documents_length results"
    using n falsy by (auto simp: documents_length_def ebind_eq_Inr split: if_splits)
  have "length items = documents_length results \<and>
     (\<forall>i < length items. result_item results i = Inr (items ! i))"
  proof (cases nonempty)
    case True
    with i obtain m where m: "len_documents0 results = Inr m"
      and a: "append_items results [0..<m] [] = Inr items"
      by (auto simp: ebind_eq_Inr)
    from append_items_Inr [OF a] m show ?thesis
      by (auto simp: documents_length_def)
  next
    case False
    with i ne show ?thesis by simp
  qed
  with e tot show ?thesis by blast
qed

lemma search_success:
  assumes "field (search b question n_results language) ''success'' = Some (PBool True)"
  shows "\<exists>results. search_fshd_knowledge b question n_results language = Inr results \<and>
     format_results results question = Inr (search b question n_results language)"
proof (cases "search_try b question n_results language")
  case (Inl e)
  with assms show ?thesis by (simp add: search_def)
next
  case (Inr env)
  then show ?thesis by (auto simp: search_def search_try_def ebind_eq_Inr)
qed

lemma search_items:
  assumes b: "search_fshd_knowledge b question n_results language = Inr results"
    and s: "field (search b question n_results language) ''success'' = Some (PBool True)"
  shows "field (search b question n_results language) ''total_results'' =
           Some (PInt (int (documents_length results))) \<and>
     length (results_of (search b question n_results language)) = documents_length results \<and>
     (\<forall>i < documents_length results.
        result_item results i = Inr (results_of (search b question n_results language) ! i))"
proof -
  from search_success [OF s] b
  have f: "format_results results question = Inr (search b question n_results language)"
    by auto
  from format_results_Inr [OF f] obtain items where
    e: "search b question n_results language =
          PDict [(ustr ''success'', PBool True), (ustr ''question'', question),
                 (ustr ''total_results'', PInt (int (documents_length results))),
                 (ustr ''results'', PList items)]"
    and l: "length items = documents_length results"
    and a: "\<forall>i < length items. result_item results i = Inr (items ! i)"
    by blast
  have r: "results_of (search b question n_results language) = items"
    by (simp add: e results_of_def)
  show ?thesis using l a by (simp add: r) (simp add: e)
qed

lemma search_bare:
  "search (answering bare_results) question n_results language =
     PDict [(ustr ''success'', PBool True), (ustr ''question'', question),
            (ustr ''total_results'', PInt 2),
            (ustr ''results'', PList [
               PDict [(ustr ''id'', PStr (ustr ''result_'' @ str_nat 0)), (ustr ''content'', PStr (ustr ''alpha'')),
                      (ustr ''metadata'', PDict []), (ustr ''distance'', PNone)],
               PDict [(ustr ''id'', PStr (ustr ''result_'' @ str_nat 1)), (ustr ''content'', PStr (ustr ''beta'')),
                      (ustr ''metadata'', PDict []), (ustr ''distance'', PNone)]])]"
  by (simp add: search_def search_try_def answering_def bare_results_def format_results_def
      len_documents0_def result_item_def cell_def upt_rec)

lemma str_nat_digit: "n < 10 \<Longrightarrow> str_nat n = [48 + n]"
  by (subst str_nat.simps) simp

lemma search_full:
  "search (answering full_results) question n_results language =
     PDict [(ustr ''success'', PBool True), (ustr ''question'', question),
            (ustr ''total_results'', PInt 2),
            (ustr ''results'', PList [
               PDict [(ustr ''id'', PStr (ustr ''c1'')), (ustr ''content'', PStr (ustr ''alpha'')),
                      (ustr ''metadata'', PDict [(ustr ''language'', PStr (ustr ''en''))]),
                      (ustr ''distance'', PFloat 0.25)],
               PDict [(ustr ''id'', PStr (ustr ''c2'')), (ustr ''content'', PStr (ustr ''beta'')),
                      (ustr ''metadata'', PDict []), (ustr ''distance'', PFloat 0.5)]])]"
  by (simp add: search_def search_try_def answering_def full_results_def format_results_def
      len_documents0_def result_item_def cell_def upt_rec)

lemma search_try_Inr_success:
  "search_try b question n_results language = Inr env \<Longrightarrow>
     field env ''success'' = Some (PBool True)"
  by (auto simp: search_try_def ebind_eq_Inr dest!: format_results_Inr)

lemma len_documents0_truthy:
  "len_documents0 results = Inr m \<Longrightarrow> \<exists>docs. getitem_key results ''documents'' = Inr docs \<and> truthy docs"
  by (auto simp: len_documents0_def ebind_eq_Inr dest: getitem_idx_0_truthy)

lemma format_results_ragged:
  assumes m: "len_documents0 results = Inr m" and i: "i < m"
    and r: "result_item results i = Inl e0"
  shows "\<exists>e. format_results results question = Inl e"
proof -
  from len_documents0_truthy [OF m] obtain docs where
    d: "getitem_key results ''documents'' = Inr docs" and t: "truthy docs" by blast
  from i have "i \<in> set [0..<m]" by simp
  from append_items_Inl [OF this r] obtain e where "append_items results [0..<m] [] = Inl e"
    by blast
  with d t m i show ?thesis
    by (simp add: format_results_def)
qed

lemma distance_present:
  assumes r: "result_item results i = Inr item"
    and f: "field results ''distances'' = Some ds" and t: "truthy ds"
  shows "\<exists>v. cell results ''distances'' i = Inr v"
proof -
  from r obtain distance where
    4: "ebind (dict_get results ''distances'' PNone)
              (\<lambda>ds. if truthy ds then cell results ''distances'' i else Inr PNone) = Inr distance"
    unfolding result_item_def ebind_eq_Inr by blast
  then obtain ds' where g: "dict_get results ''distances'' PNone = Inr ds'"
    and c: "(if truthy ds' then cell results ''distances'' i else Inr PNone) = Inr distance"
    by (auto simp: ebind_eq_Inr)
  from dict_get_Inr [OF g] f have "ds' = ds" by simp
  with c t show ?thesis by auto
qed

lemma search_status: "field (search b question n_results language) ''status'' = None"
proof (cases "search_try b question n_results language")
  case (Inl e)
  then show ?thesis by (simp add: search_def)
next
  case (Inr env)
  then obtain results where "format_results results question = Inr env"
    by (auto simp: search_try_def ebind_eq_Inr)
  from format_results_Inr [OF this] obtain items where
    "env = PDict [(ustr ''success'', PBool True), (ustr ''question'', question),
                 (ustr ''total_results'', PInt (int (documents_length results))),
                 (ustr ''results'', PList items)]"
    by blast
  with Inr show ?thesis by (simp add: search_def)
qed

lemma search_try_ragged:
  "search_try (answering ragged_results) question n_results language =
     Inl (Exn ''IndexError'' (ustr ''list index out of range''))"
  by (simp add: search_try_def answering_def ragged_results_def format_results_def
      len_documents0_def result_item_def cell_def upt_rec)

lemma search_has_success:
  "\<exists>ok. field (search b question n_results language) ''success'' = Some (PBool ok)"
proof (cases "search_try b question n_results language")
  case (Inl e)
  then show ?thesis by (auto simp: search_def)
next
  case (Inr env)
  from search_try_Inr_success [OF Inr] Inr show ?thesis by (auto simp: search_def)
qed

lemma stats_has_success: "\<exists>ok. field (stats b) ''success'' = Some (PBool ok)"
  by (auto simp: stats_def split: sum.splits)

lemma health_has_success: "\<exists>ok. field (health b) ''success'' = Some (PBool ok)"
  by (auto simp: health_def split: sum.splits)

lemma str_nat_decimal: "is_decimal (str_nat n) n"
proof (induction n rule: str_nat.induct)
  case (1 n)
  show ?case
  proof (cases "n < 10")
    case True
    then show ?thesis by (auto simp: str_nat_digit is_decimal_def)
  next
    case False
    with 1 have ih: "is_decimal (str_nat (n div 10)) (n div 10)" by simp
    have s: "str_nat n = str_nat (n div 10) @ [48 + n mod 10]"
      using False by (subst str_nat.simps) simp
    from False have pos: "n div 10 \<noteq> 0" by simp
    from ih pos have h: "hd (str_nat (n div 10)) \<noteq> 48"
      by (auto simp: is_decimal_def)
    from ih h show ?thesis
      by (auto simp: s is_decimal_def)
  qed
qed

lemma cell_shape:
  "field results k = Some (PList (PList row # rest)) \<Longrightarrow>
     cell results k i =
       (if i < length row then Inr (row ! i)
        else Inl (Exn ''IndexError'' (ustr ''list index out of range'')))"
  by (cases results) (simp_all add: cell_def)

lemma id_present:
  assumes r: "result_item results i = Inr item"
    and f: "field results ''ids'' = Some c" and t: "truthy c"
  shows "\<exists>v. cell results ''ids'' i = Inr v"
proof -
  from r obtain id_v where
    "ebind (getitem_key results ''ids'')
       (\<lambda>ids. if truthy ids then cell results ''ids'' i
               else Inr (PStr (ustr ''result_'' @ str_nat i))) = Inr id_v"
    unfolding result_item_def ebind_eq_Inr by blast
  with f t show ?thesis by (auto simp: ebind_eq_Inr getitem_key_field)
qed

lemma metadata_present:
  assumes r: "result_item results i = Inr item"
    and f: "field results ''metadatas'' = Some c" and t: "truthy c"
  shows "\<exists>v. cell results ''metadatas'' i = Inr v"
proof -
  from r obtain metadata where
    "ebind (getitem_key results ''metadatas'')
       (\<lambda>ms. if truthy ms then cell results ''metadatas'' i else Inr (PDict [])) = Inr metadata"
    unfolding result_item_def ebind_eq_Inr by blast
  with f t show ?thesis by (auto simp: ebind_eq_Inr getitem_key_field)
qed

lemma item_shape:
  assumes r: "result_item results i = Inr item"
    and f: "field results k = Some (PList (PList row # rest))"
    and c: "cell results k i = Inr v"
  shows "i < length row \<and> v = row ! i"
  using c cell_shape [OF f, of i] by (auto split: if_splits)

lemma search_null_entry:
  "search (answering null_entry_results) question n_results language =
     PDict [(ustr ''success'', PBool True), (ustr ''question'', question),
            (ustr ''total_results'', PInt 2),
            (ustr ''results'', PList [
               PDict [(ustr ''id'', PNone), (ustr ''content'', PStr (ustr ''alpha'')),
                      (ustr ''metadata'', PNone), (ustr ''distance'', PFloat 0.25)],
               PDict [(ustr ''id'', PStr (ustr ''c2'')), (ustr ''content'', PStr (ustr ''beta'')),
                      (ustr ''metadata'', PDict []), (ustr ''distance'', PFloat 0.5)]])]"
  by (simp add: search_def search_try_def answering_def null_entry_results_def format_results_def
      len_documents0_def result_item_def cell_def upt_rec)

lemma documents_length_shape:
  "field results ''documents'' = Some (PList (PList docs # rest)) \<Longrightarrow>
     documents_length results = length docs"
  by (cases results) (simp_all add: documents_length_def len_documents0_def)

lemma documents_length_falsy:
  "field results ''documents'' = Some PNone \<or> field results ''documents'' = Some (PList []) \<Longrightarrow>
     documents_length results = 0"
  by (cases results) (auto simp: documents_length_def len_documents0_def not_subscriptable_def)

lemma similarity_search_documents:
  assumes "similarity_search ranked refuse question n_results language = Inr results"
  shows "\<exists>k docs. n_results = PInt k \<and> int (length docs) \<le> k \<and>
     field results ''documents'' = Some (PList (PList docs # []))"
proof -
  from assms obtain k where k: "n_results = PInt k" "0 < k"
    and r: "results = columns (take (nat k) (filter (in_language language) (ranked question)))"
    by (cases n_results) (auto simp: similarity_search_def split: if_splits)
  let ?hits = "take (nat k) (filter (in_language language) (ranked question))"
  have "int (length (map (\<lambda>c. PStr (chunk_text c)) ?hits)) \<le> k"
    using k(2) by simp
  moreover have "field results ''documents'' = Some (PList (PList (map (\<lambda>c. PStr (chunk_text c)) ?hits) # []))"
    by (simp add: r columns_def)
  ultimately show ?thesis using k(1) by blast
qed

lemma search_spec_backend:
  "search_fshd_knowledge spec_backend question (PInt 2) PNone =
     Inr (PDict [(ustr ''ids'', PList [PList [PStr (ustr ''c1''), PStr (ustr ''c2'')]]),
            (ustr ''documents'', PList [PList [PStr (ustr ''alpha''), PStr (ustr ''beta'')]]),
            (ustr ''metadatas'',
               PList [PList [PDict [(ustr ''language'', PStr (ustr ''en''))],
                             PDict [(ustr ''language'', PStr (ustr ''zh''))]]]),
            (ustr ''distances'', PList [PList [PFloat 0.25, PFloat 0.5]])])"
  by (simp add: spec_backend_def similarity_search_def example_ranked_def columns_def
      in_language_def)

lemma search_spec:
  "search spec_backend question (PInt 2) PNone =
     PDict [(ustr ''success'', PBool True), (ustr ''question'', question),
            (ustr ''total_results'', PInt 2),
            (ustr ''results'', PList [
               PDict [(ustr ''id'', PStr (ustr ''c1'')), (ustr ''content'', PStr (ustr ''alpha'')),
                      (ustr ''metadata'', PDict [(ustr ''language'', PStr (ustr ''en''))]),
                      (ustr ''distance'', PFloat 0.25)],
               PDict [(ustr ''id'', PStr (ustr ''c2'')), (ustr ''content'', PStr (ustr ''beta'')),
                      (ustr ''metadata'', PDict [(ustr ''language'', PStr (ustr ''zh''))]),
                      (ustr ''distance'', PFloat 0.5)]])]"
  by (simp add: search_def search_try_def search_spec_backend format_results_def
      len_documents0_def result_item_def cell_def upt_rec)

lemma search_spec_none:
  "search_fshd_knowledge spec_backend question (PInt 2) (PStr (ustr ''fr'')) =
     Inr (PDict [(ustr ''ids'', PList [PList []]), (ustr ''documents'', PList [PList []]),
            (ustr ''metadatas'', PList [PList []]), (ustr ''distances'', PList [PList []])])"
  by (simp add: spec_backend_def similarity_search_def example_ranked_def columns_def
      in_language_def)

lemma search_spec_none_value:
  "search spec_backend question (PInt 2) (PStr (ustr ''fr'')) =
     PDict [(ustr ''success'', PBool True), (ustr ''question'', question),
            (ustr ''total_results'', PInt 0), (ustr ''results'', PList [])]"
  by (simp add: search_def search_try_def search_spec_none format_results_def len_documents0_def)

lemma similarity_search_distances:
  assumes "similarity_search ranked refuse question n_results language = Inr results"
  shows "\<exists>ds. field results ''distances'' = Some (PList (PList ds # [])) \<and>
     (\<forall>j < length ds. \<exists>x. ds ! j = PFloat x)"
proof -
  from assms obtain k where
    r: "results = columns (take (nat k) (filter (in_language language) (ranked question)))"
    by (cases n_results) (auto simp: similarity_search_def split: if_splits)
  show ?thesis by (simp add: r columns_def)
qed

lemma ustr_no_surrogate [simp]: "\<not> list_ex is_surrogate (ustr s)"
proof -
  have lt: "of_char c < (256 :: nat)" for c
    by (cases c) simp
  have "\<not> is_surrogate (of_char c)" for c
    unfolding is_surrogate_def using lt [of c] by arith
  then show ?thesis by (auto simp: ustr_def list_ex_iff)
qed


lemma format_value_text: "command_text fmt cmd (format_value fmt cmd)"
proof (cases cmd)
  case (PInt i)
  show ?thesis
    using str_nat_decimal [of "nat (- i)"] str_nat_decimal [of "nat i"]
    by (simp add: PInt ustr_def)
qed simp_all

lemma surrogate_command:
  "document_mode fmt b (Loaded (PDict [(ustr ''command'', PStr [55296])])) =
     Inr (unknown_command fmt (PStr [55296]))"
proof -
  have "PStr [55296] \<noteq> PStr (ustr ''search'')" "PStr [55296] \<noteq> PStr (ustr ''stats'')"
    "PStr [55296] \<noteq> PStr (ustr ''health'')"
    by (simp_all add: ustr_def)
  then show ?thesis by (simp add: document_mode_def)
qed

lemma surrogate_refused: "utf8_stdout (unknown_command fmt (PStr [55296])) = Some surrogate_error"
  by (simp add: utf8_stdout_def unknown_command_def is_surrogate_def)

lemma print_json_written: "wr env = None \<Longrightarrow> print_json wr env = written env"
  by (simp add: print_json_def written_def)

lemma document_search:
  assumes "field (PDict d) ''command'' = None \<or>
           field (PDict d) ''command'' = Some (PStr (ustr ''search''))"
  shows "document_mode fmt b (Loaded (PDict d)) =
     Inr (search b (case field (PDict d) ''question'' of None \<Rightarrow> PStr [] | Some v \<Rightarrow> v)
                   (case field (PDict d) ''n_results'' of None \<Rightarrow> PInt 3 | Some v \<Rightarrow> v)
                   (case field (PDict d) ''language'' of None \<Rightarrow> PNone | Some v \<Rightarrow> v))"
  using assms by (auto simp: document_mode_def)

section \<open>Claims about \<^verbatim>\<open>search\<close>\<close>

text \<open>
  C2, as stated, fails: the placeholder and the empty mapping stand in for a whole column
  that is null or empty, not for a missing entry. The backend's entry at an index is
  passed through as it is, so a null id or a null metadata (a chunk stored without one)
  gives an item whose \<^verbatim>\<open>id\<close> or \<^verbatim>\<open>metadata\<close> is null.
\<close>

theorem search_null_id_and_metadata:
  "field (search (answering null_entry_results) (PStr (ustr ''FSHD'')) (PInt 3) PNone) ''success'' =
     Some (PBool True) \<and>
   field (results_of (search (answering null_entry_results) (PStr (ustr ''FSHD'')) (PInt 3) PNone) ! 0) ''id'' =
     Some PNone \<and>
   field (results_of (search (answering null_entry_results) (PStr (ustr ''FSHD'')) (PInt 3) PNone) ! 0) ''metadata'' =
     Some PNone"
  by (simp add: search_null_entry results_of_def)

text \<open>
  C2, amended. In every successful search response every item has an \<^verbatim>\<open>id\<close> and
  a \<^verbatim>\<open>metadata\<close> field. When the backend's ids hold a first sequence, the
  \<^verbatim>\<open>id\<close> of item \<open>i\<close> is the entry at index \<open>i\<close> of that sequence, whatever
  it is; when the ids are null or empty, it is \<^verbatim>\<open>result_\<close> followed by the decimal
  numeral of \<open>i\<close> (0-based). Likewise \<^verbatim>\<open>metadata\<close> is the entry at index \<open>i\<close>
  of the first metadatas sequence, and the empty mapping when the metadatas are null or
  empty.
\<close>

theorem search_id_and_metadata:
  assumes "search_fshd_knowledge b question n_results language = Inr results"
    and "field (search b question n_results language) ''success'' = Some (PBool True)"
    and "i < length (results_of (search b question n_results language))"
  shows "(field results ''ids'' = Some (PList (PList ids # rest)) \<longrightarrow>
            i < length ids \<and>
            field (results_of (search b question n_results language) ! i) ''id'' = Some (ids ! i)) \<and>
         (field results ''ids'' = Some PNone \<or> field results ''ids'' = Some (PList []) \<longrightarrow>
            (\<exists>ds. is_decimal ds i \<and>
               field (results_of (search b question n_results language) ! i) ''id'' =
                 Some (PStr (ustr ''result_'' @ ds)))) \<and>
         (field results ''metadatas'' = Some (PList (PList ms # rest')) \<longrightarrow>
            i < length ms \<and>
            field (results_of (search b question n_results language) ! i) ''metadata'' = Some (ms ! i)) \<and>
         (field results ''metadatas'' = Some PNone \<or> field results ''metadatas'' = Some (PList []) \<longrightarrow>
            field (results_of (search b question n_results language) ! i) ''metadata'' = Some (PDict [])) \<and>
         (\<exists>v. field (results_of (search b question n_results language) ! i) ''id'' = Some v) \<and>
         (\<exists>m. field (results_of (search b question n_results language) ! i) ''metadata'' = Some m)"
proof -
  let ?item = "results_of (search b question n_results language) ! i"
  from search_items [OF assms(1,2)] assms(3)
  have r: "result_item results i = Inr ?item" by simp
  from result_item_Inr [OF r]
  have idf: "field ?item ''id'' = Some (case entry results ''ids'' i of Some w \<Rightarrow> w
                      | None \<Rightarrow> PStr (ustr ''result_'' @ str_nat i))"
    and mf: "field ?item ''metadata'' =
        Some (case entry results ''metadatas'' i of Some w \<Rightarrow> w | None \<Rightarrow> PDict [])"
    by auto
  have 1: "i < length ids \<and> field ?item ''id'' = Some (ids ! i)"
    if f: "field results ''ids'' = Some (PList (PList ids # rest))"
  proof -
    from id_present [OF r f] obtain v where v: "cell results ''ids'' i = Inr v" by auto
    from item_shape [OF r f v] idf v show ?thesis by (simp add: entry_Some)
  qed
  have 2: "\<exists>ds. is_decimal ds i \<and> field ?item ''id'' = Some (PStr (ustr ''result_'' @ ds))"
    if f: "field results ''ids'' = Some PNone \<or> field results ''ids'' = Some (PList [])"
  proof -
    from f have "entry results ''ids'' i = None" by (auto simp: entry_None)
    with idf str_nat_decimal [of i] show ?thesis by auto
  qed
  have 3: "i < length ms \<and> field ?item ''metadata'' = Some (ms ! i)"
    if f: "field results ''metadatas'' = Some (PList (PList ms # rest'))"
  proof -
    from metadata_present [OF r f] obtain v where v: "cell results ''metadatas'' i = Inr v" by auto
    from item_shape [OF r f v] mf v show ?thesis by (simp add: entry_Some)
  qed
  have 4: "field ?item ''metadata'' = Some (PDict [])"
    if f: "field results ''metadatas'' = Some PNone \<or> field results ''metadatas'' = Some (PList [])"
  proof -
    from f have "entry results ''metadatas'' i = None" by (auto simp: entry_None)
    with mf show ?thesis by simp
  qed
  from 1 2 3 4 idf mf show ?thesis by blast
qed

theorem search_id_and_metadata_witness:
  "field (results_of (search (answering full_results) (PStr (ustr ''FSHD'')) (PInt 3) PNone) ! 1) ''id'' = Some (PStr (ustr ''c2'')) \<and>
   field (results_of (search (answering full_results) (PStr (ustr ''FSHD'')) (PInt 3) PNone) ! 0) ''metadata'' = Some (PDict [(ustr ''language'', PStr (ustr ''en''))]) \<and>
   is_decimal (ustr ''1'') 1 \<and>
   (\<exists>ds. is_decimal ds 1 \<and>
      field (results_of (search (answering bare_results) (PStr (ustr ''FSHD'')) (PInt 3) PNone) ! 1) ''id'' =
        Some (PStr (ustr ''result_'' @ ds))) \<and>
   field (results_of (search (answering bare_results) (PStr (ustr ''FSHD'')) (PInt 3) PNone) ! 1) ''id'' =
     Some (PStr (ustr ''result_'' @ ustr ''1'')) \<and>
   field (results_of (search (answering bare_results) (PStr (ustr ''FSHD'')) (PInt 3) PNone) ! 1) ''metadata'' = Some (PDict [])"
proof -
  have bf: "search_fshd_knowledge (answering full_results) (PStr (ustr ''FSHD'')) (PInt 3) PNone = Inr full_results"
    and bb: "search_fshd_knowledge (answering bare_results) (PStr (ustr ''FSHD'')) (PInt 3) PNone = Inr bare_results"
    by (simp_all add: answering_def)
  have sf: "field (search (answering full_results) (PStr (ustr ''FSHD'')) (PInt 3) PNone) ''success'' = Some (PBool True)"
    and l1: "1 < length (results_of (search (answering full_results) (PStr (ustr ''FSHD'')) (PInt 3) PNone))"
    and l0: "0 < length (results_of (search (answering full_results) (PStr (ustr ''FSHD'')) (PInt 3) PNone))"
    by (simp_all add: search_full results_of_def)
  have sb: "field (search (answering bare_results) (PStr (ustr ''FSHD'')) (PInt 3) PNone) ''success'' = Some (PBool True)"
    and lb: "1 < length (results_of (search (answering bare_results) (PStr (ustr ''FSHD'')) (PInt 3) PNone))"
    by (simp_all add: search_bare results_of_def)
  have fi: "field full_results ''ids'' = Some (PList (PList [PStr (ustr ''c1''), PStr (ustr ''c2'')] # []))"
    and fm: "field full_results ''metadatas'' =
      Some (PList (PList [PDict [(ustr ''language'', PStr (ustr ''en''))], PDict []] # []))"
    by (simp_all add: full_results_def)
  have bi: "field bare_results ''ids'' = Some PNone"
    and bm: "field bare_results ''metadatas'' = Some PNone"
    by (simp_all add: bare_results_def)
  from search_id_and_metadata [OF bf sf l1] fi
  have 1: "field (results_of (search (answering full_results) (PStr (ustr ''FSHD'')) (PInt 3) PNone) ! 1) ''id'' = Some (PStr (ustr ''c2''))"
    by simp
  from search_id_and_metadata [OF bf sf l0] fm
  have 2: "field (results_of (search (answering full_results) (PStr (ustr ''FSHD'')) (PInt 3) PNone) ! 0) ''metadata'' =
      Some (PDict [(ustr ''language'', PStr (ustr ''en''))])"
    by simp
  from search_id_and_metadata [OF bb sb lb] bi
  have 3: "\<exists>ds. is_decimal ds 1 \<and>
      field (results_of (search (answering bare_results) (PStr (ustr ''FSHD'')) (PInt 3) PNone) ! 1) ''id'' = Some (PStr (ustr ''result_'' @ ds))"
    by simp
  have 6: "field (results_of (search (answering bare_results) (PStr (ustr ''FSHD'')) (PInt 3) PNone) ! 1) ''id'' = Some (PStr (ustr ''result_'' @ ustr ''1''))"
    by (simp add: search_bare results_of_def str_nat_digit ustr_def)
  from search_id_and_metadata [OF bb sb lb] bm
  have 4: "field (results_of (search (answering bare_results) (PStr (ustr ''FSHD'')) (PInt 3) PNone) ! 1) ''metadata'' = Some (PDict [])"
    by simp
  have 5: "is_decimal (ustr ''1'') 1" by (simp add: is_decimal_def ustr_def)
  from 1 2 3 6 4 5 show ?thesis by blast
qed

text \<open>
  C3. In every success envelope of a search, \<^verbatim>\<open>total_results\<close> is the length of the
  first documents sequence the backend returned, and 0 when the documents are null or
  empty; it is the length of \<^verbatim>\<open>results\<close>; and with the similarity search of the
  spec as the backend, the requested result-count is an integer that the length of
  \<^verbatim>\<open>results\<close> does not exceed.
\<close>

theorem search_total_results:
  assumes "search_fshd_knowledge b question n_results language = Inr results"
    and "field (search b question n_results language) ''success'' = Some (PBool True)"
  shows "(field results ''documents'' = Some (PList (PList docs # rest)) \<longrightarrow>
            field (search b question n_results language) ''total_results'' =
              Some (PInt (int (length docs))) \<and>
            length (results_of (search b question n_results language)) = length docs) \<and>
         (field results ''documents'' = Some PNone \<or> field results ''documents'' = Some (PList []) \<longrightarrow>
            field (search b question n_results language) ''total_results'' = Some (PInt 0) \<and>
            results_of (search b question n_results language) = []) \<and>
         field (search b question n_results language) ''total_results'' =
           Some (PInt (int (length (results_of (search b question n_results language))))) \<and>
         (search_fshd_knowledge b = similarity_search ranked refuse \<longrightarrow>
            (\<exists>k. n_results = PInt k \<and>
               int (length (results_of (search b question n_results language))) \<le> k))"
proof -
  note s = search_items [OF assms]
  have 1: "field (search b question n_results language) ''total_results'' =
              Some (PInt (int (length docs))) \<and>
            length (results_of (search b question n_results language)) = length docs"
    if "field results ''documents'' = Some (PList (PList docs # rest))"
    using s documents_length_shape [OF that] by simp
  have 2: "field (search b question n_results language) ''total_results'' = Some (PInt 0) \<and>
            results_of (search b question n_results language) = []"
    if "field results ''documents'' = Some PNone \<or> field results ''documents'' = Some (PList [])"
    using s documents_length_falsy [OF that] by simp
  have 3: "field (search b question n_results language) ''total_results'' =
           Some (PInt (int (length (results_of (search b question n_results language)))))"
    using s by simp
  have 4: "\<exists>k. n_results = PInt k \<and>
               int (length (results_of (search b question n_results language))) \<le> k"
    if "search_fshd_knowledge b = similarity_search ranked refuse"
  proof -
    from that assms(1)
    have "similarity_search ranked refuse question n_results language = Inr results" by simp
    from similarity_search_documents [OF this] obtain k docs' where
      k: "n_results = PInt k" "int (length docs') \<le> k"
      and f: "field results ''documents'' = Some (PList (PList docs' # []))"
      by blast
    from s documents_length_shape [OF f] k show ?thesis by simp
  qed
  from 1 2 3 4 show ?thesis by blast
qed

theorem search_total_results_witness:
  "field (search spec_backend (PStr (ustr ''FSHD'')) (PInt 2) PNone) ''success'' = Some (PBool True) \<and>
   field (search spec_backend (PStr (ustr ''FSHD'')) (PInt 2) PNone) ''total_results'' = Some (PInt 2) \<and>
   length (results_of (search spec_backend (PStr (ustr ''FSHD'')) (PInt 2) PNone)) = 2 \<and>
   (\<exists>k. PInt 2 = PInt k \<and>
      int (length (results_of (search spec_backend (PStr (ustr ''FSHD'')) (PInt 2) PNone))) \<le> k) \<and>
   field (search spec_backend (PStr (ustr ''FSHD'')) (PInt 2) (PStr (ustr ''fr''))) ''success'' = Some (PBool True) \<and>
   field (search spec_backend (PStr (ustr ''FSHD'')) (PInt 2) (PStr (ustr ''fr''))) ''total_results'' = Some (PInt 0) \<and>
   length (results_of (search spec_backend (PStr (ustr ''FSHD'')) (PInt 2) (PStr (ustr ''fr'')))) = 0"
proof -
  note b = search_spec_backend [of "PStr (ustr ''FSHD'')"]
  note n = search_spec_none [of "PStr (ustr ''FSHD'')"]
  have s: "field (search spec_backend (PStr (ustr ''FSHD'')) (PInt 2) PNone) ''success'' = Some (PBool True)"
    by (simp add: search_spec)
  have sn: "field (search spec_backend (PStr (ustr ''FSHD'')) (PInt 2) (PStr (ustr ''fr''))) ''success'' = Some (PBool True)"
    by (simp add: search_spec_none_value)
  have c: "search_fshd_knowledge spec_backend =
      similarity_search example_ranked (Exn ''ValueError'' (ustr ''invalid result count''))"
    by (simp add: spec_backend_def)
  from search_total_results [OF b s, of "[PStr (ustr ''alpha''), PStr (ustr ''beta'')]" "[]"
      example_ranked "Exn ''ValueError'' (ustr ''invalid result count'')"] c
  have 1: "field (search spec_backend (PStr (ustr ''FSHD'')) (PInt 2) PNone) ''total_results'' = Some (PInt 2) \<and>
   length (results_of (search spec_backend (PStr (ustr ''FSHD'')) (PInt 2) PNone)) = 2 \<and>
   (\<exists>k. PInt 2 = PInt k \<and>
      int (length (results_of (search spec_backend (PStr (ustr ''FSHD'')) (PInt 2) PNone))) \<le> k)"
    by simp
  from search_total_results [OF n sn, of "[]" "[]"]
  have 2: "field (search spec_backend (PStr (ustr ''FSHD'')) (PInt 2) (PStr (ustr ''fr''))) ''total_results'' = Some (PInt 0) \<and>
   length (results_of (search spec_backend (PStr (ustr ''FSHD'')) (PInt 2) (PStr (ustr ''fr'')))) = 0"
    by simp
  from s sn 1 2 show ?thesis by blast
qed

text \<open>
  C5. When the backend call raises, \<^verbatim>\<open>search\<close> returns the failure envelope with
  \<^verbatim>\<open>success\<close> false, the text of the exception as \<^verbatim>\<open>error\<close> and the
  question echoed; so it does when the formatting of a malformed result raises (an index
  of the documents for which building the item fails, as with ragged sequences), and in
  general whenever the body of the \<^verbatim>\<open>try\<close> raises. There is no other failure:
  an envelope of \<^verbatim>\<open>search\<close> that is not a success comes from an exception raised
  in that body.
\<close>

theorem search_failure_path:
  "(search_fshd_knowledge b question n_results language = Inl e \<longrightarrow>
      search b question n_results language = search_failure e question) \<and>
   (search_fshd_knowledge b question n_results language = Inr results \<and>
    len_documents0 results = Inr m \<and> i < m \<and> result_item results i = Inl e0 \<longrightarrow>
      (\<exists>e'. search b question n_results language = search_failure e' question)) \<and>
   (search_try b question n_results language = Inl e \<longrightarrow>
      search b question n_results language = search_failure e question) \<and>
   (field (search b question n_results language) ''success'' \<noteq> Some (PBool True) \<longrightarrow>
      (\<exists>e'. search_try b question n_results language = Inl e' \<and>
            search b question n_results language = search_failure e' question)) \<and>
   search_failure e question =
     PDict [(ustr ''success'', PBool False), (ustr ''error'', PStr (exn_str e)),
            (ustr ''question'', question)]"
proof (intro conjI impI)
  show "search_failure e question =
     PDict [(ustr ''success'', PBool False), (ustr ''error'', PStr (exn_str e)),
            (ustr ''question'', question)]"
    by (simp add: search_failure_def)
next
  assume "search_fshd_knowledge b question n_results language = Inl e"
  then show "search b question n_results language = search_failure e question"
    by (simp add: search_def search_try_def search_failure_def)
next
  assume a: "search_fshd_knowledge b question n_results language = Inr results \<and>
    len_documents0 results = Inr m \<and> i < m \<and> result_item results i = Inl e0"
  then obtain e' where "format_results results question = Inl e'"
    using format_results_ragged by blast
  with a show "\<exists>e'. search b question n_results language = search_failure e' question"
    by (auto simp: search_def search_try_def search_failure_def)
next
  assume "search_try b question n_results language = Inl e"
  then show "search b question n_results language = search_failure e question"
    by (simp add: search_def search_failure_def)
next
  assume n: "field (search b question n_results language) ''success'' \<noteq> Some (PBool True)"
  show "\<exists>e'. search_try b question n_results language = Inl e' \<and>
            search b question n_results language = search_failure e' question"
  proof (cases "search_try b question n_results language")
    case (Inl e')
    then show ?thesis by (simp add: search_def search_failure_def)
  next
    case (Inr env)
    with search_try_Inr_success [OF Inr] n show ?thesis by (simp add: search_def)
  qed
qed

theorem search_failure_path_witness:
  "search_fshd_knowledge unreachable (PStr (ustr ''FSHD'')) (PInt 3) PNone = Inl unreachable_error \<and>
   search unreachable (PStr (ustr ''FSHD'')) (PInt 3) PNone =
     PDict [(ustr ''success'', PBool False), (ustr ''error'', PStr (ustr ''backend unreachable'')),
            (ustr ''question'', PStr (ustr ''FSHD''))] \<and>
   search_try (answering ragged_results) (PStr (ustr ''FSHD'')) (PInt 3) PNone =
     Inl (Exn ''IndexError'' (ustr ''list index out of range'')) \<and>
   search (answering ragged_results) (PStr (ustr ''FSHD'')) (PInt 3) PNone =
     PDict [(ustr ''success'', PBool False), (ustr ''error'', PStr (ustr ''list index out of range'')),
            (ustr ''question'', PStr (ustr ''FSHD''))]"
proof -
  have u: "search_fshd_knowledge unreachable (PStr (ustr ''FSHD'')) (PInt 3) PNone = Inl unreachable_error"
    by (simp add: unreachable_def)
  note r = search_try_ragged [of "PStr (ustr ''FSHD'')" "PInt 3" PNone]
  from search_failure_path [of unreachable "PStr (ustr ''FSHD'')" "PInt 3" PNone unreachable_error] u
  have 1: "search unreachable (PStr (ustr ''FSHD'')) (PInt 3) PNone =
     PDict [(ustr ''success'', PBool False), (ustr ''error'', PStr (ustr ''backend unreachable'')),
            (ustr ''question'', PStr (ustr ''FSHD''))]"
    by (simp add: unreachable_error_def)
  from search_failure_path [of "answering ragged_results" "PStr (ustr ''FSHD'')" "PInt 3" PNone
      "Exn ''IndexError'' (ustr ''list index out of range'')"] r
  have 2: "search (answering ragged_results) (PStr (ustr ''FSHD'')) (PInt 3) PNone =
     PDict [(ustr ''success'', PBool False), (ustr ''error'', PStr (ustr ''list index out of range'')),
            (ustr ''question'', PStr (ustr ''FSHD''))]"
    by simp
  from u r 1 2 show ?thesis by simp
qed

text \<open>
  C7. In every successful search response: when the backend result carries no distances
  sequence (no such key, a null or an empty value), every item has a \<^verbatim>\<open>distance\<close>
  field holding an explicit null; when it carries a first distances sequence, the
  \<^verbatim>\<open>distance\<close> of item \<open>i\<close> is the entry at index \<open>i\<close> of that sequence, and
  with the similarity search of the spec as the backend that entry is a number.
\<close>

theorem search_distance:
  assumes "search_fshd_knowledge b question n_results language = Inr results"
    and "field (search b question n_results language) ''success'' = Some (PBool True)"
    and "i < length (results_of (search b question n_results language))"
  shows "(no_distances results \<longrightarrow>
            field (results_of (search b question n_results language) ! i) ''distance'' = Some PNone) \<and>
         (\<not> no_distances results \<longrightarrow>
            (\<exists>v. cell results ''distances'' i = Inr v \<and>
              field (results_of (search b question n_results language) ! i) ''distance'' = Some v)) \<and>
         (field results ''distances'' = None \<or> field results ''distances'' = Some PNone \<or>
          field results ''distances'' = Some (PList []) \<longrightarrow>
            field (results_of (search b question n_results language) ! i) ''distance'' = Some PNone) \<and>
         (field results ''distances'' = Some (PList (PList ds # rest)) \<longrightarrow>
            i < length ds \<and>
            field (results_of (search b question n_results language) ! i) ''distance'' = Some (ds ! i)) \<and>
         (search_fshd_knowledge b = similarity_search ranked refuse \<longrightarrow>
            (\<exists>x. field (results_of (search b question n_results language) ! i) ''distance'' =
               Some (PFloat x)))"
proof -
  let ?item = "results_of (search b question n_results language) ! i"
  from search_items [OF assms(1,2)] assms(3)
  have r: "result_item results i = Inr ?item"
    by simp
  from result_item_Inr [OF r]
  have d: "field ?item ''distance'' =
      Some (case entry results ''distances'' i of Some w \<Rightarrow> w | None \<Rightarrow> PNone)"
    by auto
  have 1: "field ?item ''distance'' = Some PNone" if "no_distances results"
  proof -
    from that have "entry results ''distances'' i = None"
      by (auto simp: no_distances_def entry_absent entry_None split: option.splits)
    with d show ?thesis by simp
  qed
  have 2: "\<exists>v. cell results ''distances'' i = Inr v \<and> field ?item ''distance'' = Some v"
    if "\<not> no_distances results"
  proof -
    from that obtain c where "field results ''distances'' = Some c" "truthy c"
      by (auto simp: no_distances_def split: option.splits)
    from distance_present [OF r this] obtain v where v: "cell results ''distances'' i = Inr v"
      by blast
    with d show ?thesis by (simp add: entry_Some)
  qed
  have 3: "field ?item ''distance'' = Some PNone"
    if "field results ''distances'' = None \<or> field results ''distances'' = Some PNone \<or>
          field results ''distances'' = Some (PList [])"
    using that 1 by (auto simp: no_distances_def)
  have 4: "i < length ds \<and> field ?item ''distance'' = Some (ds ! i)"
    if f: "field results ''distances'' = Some (PList (PList ds # rest))" for ds rest
  proof -
    from f have "\<not> no_distances results" by (simp add: no_distances_def)
    from 2 [OF this] obtain v where v: "cell results ''distances'' i = Inr v"
      and e: "field ?item ''distance'' = Some v" by blast
    from item_shape [OF r f v] e show ?thesis by simp
  qed
  have 5: "\<exists>x. field ?item ''distance'' = Some (PFloat x)"
    if "search_fshd_knowledge b = similarity_search ranked refuse"
  proof -
    from that assms(1)
    have "similarity_search ranked refuse question n_results language = Inr results" by simp
    from similarity_search_distances [OF this] obtain ds' where
      f: "field results ''distances'' = Some (PList (PList ds' # []))"
      and a: "\<forall>j < length ds'. \<exists>x. ds' ! j = PFloat x"
      by blast
    from 4 [OF f] a show ?thesis by auto
  qed
  from 1 2 3 4 5 show ?thesis by blast
qed

theorem search_distance_witness:
  "field (results_of (search (answering full_results) (PStr (ustr ''FSHD'')) (PInt 3) PNone) ! 0) ''distance'' = Some (PFloat 0.25) \<and>
   field (results_of (search (answering full_results) (PStr (ustr ''FSHD'')) (PInt 3) PNone) ! 1) ''distance'' = Some (PFloat 0.5) \<and>
   no_distances bare_results \<and>
   field (results_of (search (answering bare_results) (PStr (ustr ''FSHD'')) (PInt 3) PNone) ! 1) ''distance'' = Some PNone \<and>
   (\<exists>x. field (results_of (search spec_backend (PStr (ustr ''FSHD'')) (PInt 2) PNone) ! 1) ''distance'' = Some (PFloat x))"
proof -
  have bf: "search_fshd_knowledge (answering full_results) (PStr (ustr ''FSHD'')) (PInt 3) PNone = Inr full_results"
    and bb: "search_fshd_knowledge (answering bare_results) (PStr (ustr ''FSHD'')) (PInt 3) PNone = Inr bare_results"
    by (simp_all add: answering_def)
  have sf: "field (search (answering full_results) (PStr (ustr ''FSHD'')) (PInt 3) PNone) ''success'' = Some (PBool True)"
    and l1: "1 < length (results_of (search (answering full_results) (PStr (ustr ''FSHD'')) (PInt 3) PNone))"
    and l0: "0 < length (results_of (search (answering full_results) (PStr (ustr ''FSHD'')) (PInt 3) PNone))"
    by (simp_all add: search_full results_of_def)
  have sb: "field (search (answering bare_results) (PStr (ustr ''FSHD'')) (PInt 3) PNone) ''success'' = Some (PBool True)"
    and lb: "1 < length (results_of (search (answering bare_results) (PStr (ustr ''FSHD'')) (PInt 3) PNone))"
    by (simp_all add: search_bare results_of_def)
  have ss: "field (search spec_backend (PStr (ustr ''FSHD'')) (PInt 2) PNone) ''success'' = Some (PBool True)"
    and ls: "1 < length (results_of (search spec_backend (PStr (ustr ''FSHD'')) (PInt 2) PNone))"
    by (simp_all add: search_spec results_of_def)
  have fd: "field full_results ''distances'' = Some (PList (PList [PFloat 0.25, PFloat 0.5] # []))"
    by (simp add: full_results_def)
  have nb: "no_distances bare_results"
    by (simp add: no_distances_def bare_results_def)
  have c: "search_fshd_knowledge spec_backend =
      similarity_search example_ranked (Exn ''ValueError'' (ustr ''invalid result count''))"
    by (simp add: spec_backend_def)
  from search_distance [OF bf sf l0] fd
  have 1: "field (results_of (search (answering full_results) (PStr (ustr ''FSHD'')) (PInt 3) PNone) ! 0) ''distance'' = Some (PFloat 0.25)"
    by simp
  from search_distance [OF bf sf l1] fd
  have 2: "field (results_of (search (answering full_results) (PStr (ustr ''FSHD'')) (PInt 3) PNone) ! 1) ''distance'' = Some (PFloat 0.5)"
    by simp
  from search_distance [OF bb sb lb] nb
  have 3: "field (results_of (search (answering bare_results) (PStr (ustr ''FSHD'')) (PInt 3) PNone) ! 1) ''distance'' = Some PNone"
    by simp
  from search_distance [OF search_spec_backend ss ls] c
  have 4: "\<exists>x. field (results_of (search spec_backend (PStr (ustr ''FSHD'')) (PInt 2) PNone) ! 1) ''distance'' = Some (PFloat x)"
    by blast
  from 1 2 nb 3 4 show ?thesis by blast
qed

section \<open>Claims about \<^verbatim>\<open>health\<close>\<close>

text \<open>
  C8. When the count call succeeds, \<^verbatim>\<open>health\<close> returns the healthy envelope with the
  fixed collection name and the count; when it raises, the unhealthy envelope with the
  text of the exception. No envelope of \<^verbatim>\<open>search\<close> or \<^verbatim>\<open>stats\<close>, nor the
  two failure envelopes \<^verbatim>\<open>main\<close> builds itself, has a \<^verbatim>\<open>status\<close> field.
\<close>

theorem health_envelope:
  "(collection_count b = Inr count \<longrightarrow>
      health b = PDict [(ustr ''success'', PBool True), (ustr ''status'', PStr (ustr ''healthy'')),
                        (ustr ''collection'', PStr (ustr ''fshd_knowledge_base'')),
                        (ustr ''total_chunks'', count)]) \<and>
   (collection_count b = Inl e \<longrightarrow>
      health b = PDict [(ustr ''success'', PBool False), (ustr ''status'', PStr (ustr ''unhealthy'')),
                        (ustr ''error'', PStr (exn_str e))]) \<and>
   field (search b question n_results language) ''status'' = None \<and>
   field (stats b) ''status'' = None \<and>
   field (json_error msg) ''status'' = None \<and>
   field (unknown_command fmt cmd) ''status'' = None"
  by (auto simp: health_def search_status stats_def json_error_def unknown_command_def
      split: sum.splits)

theorem health_envelope_witness:
  "collection_count (answering full_results) = Inr (PInt 7) \<and>
   health (answering full_results) =
     PDict [(ustr ''success'', PBool True), (ustr ''status'', PStr (ustr ''healthy'')),
            (ustr ''collection'', PStr (ustr ''fshd_knowledge_base'')),
            (ustr ''total_chunks'', PInt 7)] \<and>
   collection_count unreachable = Inl unreachable_error \<and>
   health unreachable =
     PDict [(ustr ''success'', PBool False), (ustr ''status'', PStr (ustr ''unhealthy'')),
            (ustr ''error'', PStr (ustr ''backend unreachable''))]"
proof -
  have a: "collection_count (answering full_results) = Inr (PInt 7)"
    by (simp add: answering_def)
  have u: "collection_count unreachable = Inl unreachable_error"
    by (simp add: unreachable_def)
  from health_envelope [of "answering full_results" "PInt 7"] a
    health_envelope [of unreachable _ unreachable_error] u
  show ?thesis by (simp add: unreachable_error_def)
qed

section \<open>Claims about the process\<close>

text \<open>
  C1, as stated, fails: the bridge is constructed at line 146, outside every
  \<^verbatim>\<open>try\<close>. When \<^verbatim>\<open>FSHDPDFProcessor()\<close> raises, flag mode with the
  \<^verbatim>\<open>health\<close> subcommand writes no envelope and the exception escapes. So do, in
  document mode, the AttributeError on a JSON list, an exception of \<^verbatim>\<open>json.load\<close>
  that is not a JSONDecodeError, and the UnicodeEncodeError of line 185 on an envelope
  that holds a lone surrogate.
\<close>

theorem constructor_failure_escapes:
  "stdout (main repr_stub utf8_stdout no_client \<lparr>stdin = False, command = Some Health_cmd\<rparr> empty_stdin) = [] \<and>
   ending (main repr_stub utf8_stdout no_client \<lparr>stdin = False, command = Some Health_cmd\<rparr> empty_stdin) =
     Uncaught unreachable_error \<and>
   stdout (main repr_stub utf8_stdout (answering full_results) \<lparr>stdin = True, command = None\<rparr> (Loaded (PList []))) = [] \<and>
   ending (main repr_stub utf8_stdout (answering full_results) \<lparr>stdin = True, command = None\<rparr> (Loaded (PList []))) =
     Uncaught (Exn ''AttributeError'' (ustr ([CHR 0x27] @ ''list'' @ [CHR 0x27] @
       '' object has no attribute '' @ [CHR 0x27] @ ''get'' @ [CHR 0x27]))) \<and>
   stdout (main repr_stub utf8_stdout (answering full_results) \<lparr>stdin = True, command = None\<rparr> (LoadRaised recursion_error)) = [] \<and>
   ending (main repr_stub utf8_stdout (answering full_results) \<lparr>stdin = True, command = None\<rparr> (LoadRaised recursion_error)) =
     Uncaught recursion_error \<and>
   stdout (main repr_stub utf8_stdout (answering full_results) \<lparr>stdin = True, command = None\<rparr>
      (Loaded (PDict [(ustr ''command'', PStr [55296])]))) = [] \<and>
   ending (main repr_stub utf8_stdout (answering full_results) \<lparr>stdin = True, command = None\<rparr>
      (Loaded (PDict [(ustr ''command'', PStr [55296])]))) = Uncaught surrogate_error"
proof -
  have 1: "main repr_stub utf8_stdout no_client \<lparr>stdin = False, command = Some Health_cmd\<rparr> empty_stdin =
      uncaught unreachable_error"
    by (simp add: main_def no_client_def unreachable_def)
  have 2: "main repr_stub utf8_stdout (answering full_results) \<lparr>stdin = True, command = None\<rparr> (Loaded (PList [])) =
      uncaught (Exn ''AttributeError'' (ustr ([CHR 0x27] @ ''list'' @ [CHR 0x27] @
       '' object has no attribute '' @ [CHR 0x27] @ ''get'' @ [CHR 0x27])))"
    by (simp add: main_def answering_def document_mode_def)
  have 3: "main repr_stub utf8_stdout (answering full_results) \<lparr>stdin = True, command = None\<rparr> (LoadRaised recursion_error) =
      uncaught recursion_error"
    by (simp add: main_def answering_def document_mode_def)
  have 4: "main repr_stub utf8_stdout (answering full_results) \<lparr>stdin = True, command = None\<rparr>
      (Loaded (PDict [(ustr ''command'', PStr [55296])])) = uncaught surrogate_error"
    by (simp add: main_def answering_def surrogate_command print_json_def surrogate_refused)
  show ?thesis by (simp add: 1 2 3 4 uncaught_def)
qed

text \<open>
  C1, amended. With the bridge constructed, an invocation that is flag mode with a
  subcommand, or document mode where \<^verbatim>\<open>json.load\<close> raises a JSONDecodeError or
  returns an object, and on which line 185 writes its text, leaves exactly one JSON
  envelope on standard output, nothing on standard error, and status 0. The envelope is
  the result of the requested operation (the search, statistics or health envelope, the
  parse-error envelope, the unknown-command envelope), each with a boolean
  \<^verbatim>\<open>success\<close>. An exception raised by the backend's search, statistics or count
  call is caught inside the operation and becomes its failure envelope.
\<close>

theorem one_envelope:
  assumes "FSHDPDFProcessor_init b = None"
  shows "(\<not> stdin a \<and> command a = Some (Search_cmd q n l) \<and>
          wr (search b (PStr q) (PInt n) (case l of None \<Rightarrow> PNone | Some t \<Rightarrow> PStr t)) = None \<longrightarrow>
            main fmt wr b a inp =
              written (search b (PStr q) (PInt n) (case l of None \<Rightarrow> PNone | Some t \<Rightarrow> PStr t))) \<and>
         (\<not> stdin a \<and> command a = Some Stats_cmd \<and> wr (stats b) = None \<longrightarrow>
            main fmt wr b a inp = written (stats b)) \<and>
         (\<not> stdin a \<and> command a = Some Health_cmd \<and> wr (health b) = None \<longrightarrow>
            main fmt wr b a inp = written (health b)) \<and>
         (stdin a \<and> wr (json_error msg) = None \<longrightarrow>
            main fmt wr b a (JSONDecodeError msg) = written (json_error msg)) \<and>
         (stdin a \<and>
          (field (PDict d) ''command'' = None \<or>
           field (PDict d) ''command'' = Some (PStr (ustr ''search''))) \<and>
          wr (search b (case field (PDict d) ''question'' of None \<Rightarrow> PStr [] | Some v \<Rightarrow> v)
                (case field (PDict d) ''n_results'' of None \<Rightarrow> PInt 3 | Some v \<Rightarrow> v)
                (case field (PDict d) ''language'' of None \<Rightarrow> PNone | Some v \<Rightarrow> v)) = None \<longrightarrow>
            main fmt wr b a (Loaded (PDict d)) =
              written (search b (case field (PDict d) ''question'' of None \<Rightarrow> PStr [] | Some v \<Rightarrow> v)
                (case field (PDict d) ''n_results'' of None \<Rightarrow> PInt 3 | Some v \<Rightarrow> v)
                (case field (PDict d) ''language'' of None \<Rightarrow> PNone | Some v \<Rightarrow> v))) \<and>
         (stdin a \<and> field (PDict d) ''command'' = Some (PStr (ustr ''stats'')) \<and> wr (stats b) = None \<longrightarrow>
            main fmt wr b a (Loaded (PDict d)) = written (stats b)) \<and>
         (stdin a \<and> field (PDict d) ''command'' = Some (PStr (ustr ''health'')) \<and> wr (health b) = None \<longrightarrow>
            main fmt wr b a (Loaded (PDict d)) = written (health b)) \<and>
         (stdin a \<and> field (PDict d) ''command'' = Some cmd \<and> cmd \<noteq> PStr (ustr ''search'') \<and>
          cmd \<noteq> PStr (ustr ''stats'') \<and> cmd \<noteq> PStr (ustr ''health'') \<and>
          wr (unknown_command fmt cmd) = None \<longrightarrow>
            main fmt wr b a (Loaded (PDict d)) = written (unknown_command fmt cmd)) \<and>
         written env = \<lparr>stdout = [JsonDoc env], stderr = [], ending = Exit 0\<rparr> \<and>
         (\<exists>ok. field (search b question n_results language) ''success'' = Some (PBool ok)) \<and>
         (\<exists>ok. field (stats b) ''success'' = Some (PBool ok)) \<and>
         (\<exists>ok. field (health b) ''success'' = Some (PBool ok)) \<and>
         field (json_error msg) ''success'' = Some (PBool False) \<and>
         field (unknown_command fmt cmd) ''success'' = Some (PBool False) \<and>
         (search_fshd_knowledge b question n_results language = Inl e \<longrightarrow>
            search b question n_results language =
              PDict [(ustr ''success'', PBool False), (ustr ''error'', PStr (exn_str e)),
                     (ustr ''question'', question)]) \<and>
         (get_collection_stats b = Inl e \<longrightarrow>
            stats b = PDict [(ustr ''success'', PBool False), (ustr ''error'', PStr (exn_str e))]) \<and>
         (collection_count b = Inl e \<longrightarrow>
            health b = PDict [(ustr ''success'', PBool False), (ustr ''status'', PStr (ustr ''unhealthy'')),
                              (ustr ''error'', PStr (exn_str e))])"
proof (intro conjI impI)
  assume "\<not> stdin a \<and> command a = Some (Search_cmd q n l) \<and>
          wr (search b (PStr q) (PInt n) (case l of None \<Rightarrow> PNone | Some t \<Rightarrow> PStr t)) = None"
  with assms show "main fmt wr b a inp =
      written (search b (PStr q) (PInt n) (case l of None \<Rightarrow> PNone | Some t \<Rightarrow> PStr t))"
    by (simp add: main_def print_json_written)
next
  assume "\<not> stdin a \<and> command a = Some Stats_cmd \<and> wr (stats b) = None"
  with assms show "main fmt wr b a inp = written (stats b)"
    by (simp add: main_def print_json_written)
next
  assume "\<not> stdin a \<and> command a = Some Health_cmd \<and> wr (health b) = None"
  with assms show "main fmt wr b a inp = written (health b)"
    by (simp add: main_def print_json_written)
next
  assume "stdin a \<and> wr (json_error msg) = None"
  with assms show "main fmt wr b a (JSONDecodeError msg) = written (json_error msg)"
    by (simp add: main_def document_mode_def print_json_written)
next
  assume h: "stdin a \<and>
          (field (PDict d) ''command'' = None \<or>
           field (PDict d) ''command'' = Some (PStr (ustr ''search''))) \<and>
          wr (search b (case field (PDict d) ''question'' of None \<Rightarrow> PStr [] | Some v \<Rightarrow> v)
                (case field (PDict d) ''n_results'' of None \<Rightarrow> PInt 3 | Some v \<Rightarrow> v)
                (case field (PDict d) ''language'' of None \<Rightarrow> PNone | Some v \<Rightarrow> v)) = None"
  then have "document_mode fmt b (Loaded (PDict d)) =
     Inr (search b (case field (PDict d) ''question'' of None \<Rightarrow> PStr [] | Some v \<Rightarrow> v)
                   (case field (PDict d) ''n_results'' of None \<Rightarrow> PInt 3 | Some v \<Rightarrow> v)
                   (case field (PDict d) ''language'' of None \<Rightarrow> PNone | Some v \<Rightarrow> v))"
    by (intro document_search) blast
  with assms h show "main fmt wr b a (Loaded (PDict d)) =
              written (search b (case field (PDict d) ''question'' of None \<Rightarrow> PStr [] | Some v \<Rightarrow> v)
                (case field (PDict d) ''n_results'' of None \<Rightarrow> PInt 3 | Some v \<Rightarrow> v)
                (case field (PDict d) ''language'' of None \<Rightarrow> PNone | Some v \<Rightarrow> v))"
    by (simp add: main_def print_json_written)
next
  assume "stdin a \<and> field (PDict d) ''command'' = Some (PStr (ustr ''stats'')) \<and> wr (stats b) = None"
  with assms show "main fmt wr b a (Loaded (PDict d)) = written (stats b)"
    by (simp add: main_def document_mode_def print_json_written)
next
  assume "stdin a \<and> field (PDict d) ''command'' = Some (PStr (ustr ''health'')) \<and> wr (health b) = None"
  with assms show "main fmt wr b a (Loaded (PDict d)) = written (health b)"
    by (simp add: main_def document_mode_def print_json_written)
next
  assume "stdin a \<and> field (PDict d) ''command'' = Some cmd \<and> cmd \<noteq> PStr (ustr ''search'') \<and>
          cmd \<noteq> PStr (ustr ''stats'') \<and> cmd \<noteq> PStr (ustr ''health'') \<and>
          wr (unknown_command fmt cmd) = None"
  with assms show "main fmt wr b a (Loaded (PDict d)) = written (unknown_command fmt cmd)"
    by (simp add: main_def document_mode_def print_json_written)
next
  show "written env = \<lparr>stdout = [JsonDoc env], stderr = [], ending = Exit 0\<rparr>"
    by (simp add: written_def)
next
  show "\<exists>ok. field (search b question n_results language) ''success'' = Some (PBool ok)"
    by (rule search_has_success)
next
  show "\<exists>ok. field (stats b) ''success'' = Some (PBool ok)"
    by (rule stats_has_success)
next
  show "\<exists>ok. field (health b) ''success'' = Some (PBool ok)"
    by (rule health_has_success)
next
  show "field (json_error msg) ''success'' = Some (PBool False)"
    by (simp add: json_error_def)
next
  show "field (unknown_command fmt cmd) ''success'' = Some (PBool False)"
    by (simp add: unknown_command_def)
next
  assume "search_fshd_knowledge b question n_results language = Inl e"
  then show "search b question n_results language =
          PDict [(ustr ''success'', PBool False), (ustr ''error'', PStr (exn_str e)),
                 (ustr ''question'', question)]"
    by (simp add: search_def search_try_def)
next
  assume "get_collection_stats b = Inl e"
  then show "stats b = PDict [(ustr ''success'', PBool False), (ustr ''error'', PStr (exn_str e))]"
    by (simp add: stats_def)
next
  assume "collection_count b = Inl e"
  then show "health b = PDict [(ustr ''success'', PBool False), (ustr ''status'', PStr (ustr ''unhealthy'')),
                          (ustr ''error'', PStr (exn_str e))]"
    by (simp add: health_def)
qed

theorem one_envelope_witness:
  "FSHDPDFProcessor_init unreachable = None \<and>
   utf8_stdout (stats unreachable) = None \<and>
   get_collection_stats unreachable = Inl unreachable_error \<and>
   stats unreachable =
     PDict [(ustr ''success'', PBool False), (ustr ''error'', PStr (ustr ''backend unreachable''))] \<and>
   main repr_stub utf8_stdout unreachable \<lparr>stdin = False, command = Some Stats_cmd\<rparr> empty_stdin =
     \<lparr>stdout = [JsonDoc (PDict [(ustr ''success'', PBool False),
                  (ustr ''error'', PStr (ustr ''backend unreachable''))])],
      stderr = [], ending = Exit 0\<rparr>"
proof -
  have i: "FSHDPDFProcessor_init unreachable = None"
    and g: "get_collection_stats unreachable = Inl unreachable_error"
    by (simp_all add: unreachable_def)
  note th = one_envelope [OF i, where fmt = repr_stub and wr = utf8_stdout and a = "\<lparr>stdin = False, command = Some Stats_cmd\<rparr>"
      and inp = empty_stdin and e = unreachable_error and env = "stats unreachable"]
  note c2 = th [THEN conjunct2]
  note c9 = c2 [THEN conjunct2, THEN conjunct2, THEN conjunct2, THEN conjunct2, THEN conjunct2,
      THEN conjunct2, THEN conjunct2]
  note c16 = c9 [THEN conjunct2, THEN conjunct2, THEN conjunct2, THEN conjunct2, THEN conjunct2,
      THEN conjunct2, THEN conjunct2]
  from c16 [THEN conjunct1] g
  have st: "stats unreachable =
     PDict [(ustr ''success'', PBool False), (ustr ''error'', PStr (ustr ''backend unreachable''))]"
    by (simp add: unreachable_error_def)
  have w: "utf8_stdout (stats unreachable) = None"
    by (simp add: st utf8_stdout_def)
  from c2 [THEN conjunct1] w
  have m: "main repr_stub utf8_stdout unreachable \<lparr>stdin = False, command = Some Stats_cmd\<rparr> empty_stdin = written (stats unreachable)"
    by simp
  have r: "main repr_stub utf8_stdout unreachable \<lparr>stdin = False, command = Some Stats_cmd\<rparr> empty_stdin =
     \<lparr>stdout = [JsonDoc (PDict [(ustr ''success'', PBool False),
                  (ustr ''error'', PStr (ustr ''backend unreachable''))])],
      stderr = [], ending = Exit 0\<rparr>"
    by (simp add: m st written_def)
  show ?thesis by (intro conjI i w g st r)
qed

text \<open>
  C4, as stated, fails. The bridge is constructed before standard input is read, so with
  a constructor that raises, malformed JSON gives no envelope and status 1. And a text
  that is not valid JSON can make \<^verbatim>\<open>json.load\<close> raise an exception that is not
  a JSONDecodeError (RecursionError on a hundred thousand opening brackets), which the
  handler of line 166 does not catch.
\<close>

theorem malformed_json_crashes:
  "stdout (main repr_stub utf8_stdout no_client \<lparr>stdin = True, command = None\<rparr> (JSONDecodeError (ustr ''Expecting property name enclosed in double quotes: line 1 column 2 (char 1)''))) = [] \<and>
   ending (main repr_stub utf8_stdout no_client \<lparr>stdin = True, command = None\<rparr> (JSONDecodeError (ustr ''Expecting property name enclosed in double quotes: line 1 column 2 (char 1)''))) =
     Uncaught unreachable_error \<and>
   stdout (main repr_stub utf8_stdout (answering full_results) \<lparr>stdin = True, command = None\<rparr> (LoadRaised recursion_error)) = [] \<and>
   ending (main repr_stub utf8_stdout (answering full_results) \<lparr>stdin = True, command = None\<rparr> (LoadRaised recursion_error)) =
     Uncaught recursion_error"
  by (simp add: main_def no_client_def unreachable_def uncaught_def answering_def document_mode_def)

text \<open>
  C4, amended. In document mode, with the bridge constructed, when \<^verbatim>\<open>json.load\<close>
  raises a JSONDecodeError and line 185 writes its text, the program writes one failure
  envelope, \<^verbatim>\<open>success\<close> false and \<^verbatim>\<open>error\<close> the description of the parse
  error after the source's prefix, as all of its standard output, and ends with status 0:
  no traceback, no help text.
\<close>

theorem malformed_json_envelope:
  assumes "FSHDPDFProcessor_init b = None" and "stdin a"
    and "wr (PDict [(ustr ''success'', PBool False), (ustr ''error'', PStr (ustr ''JSON'' @ [35299, 26512, 38169, 35823, 58, 32] @ msg))]) = None"
  shows "main fmt wr b a (JSONDecodeError msg) =
      \<lparr>stdout = [JsonDoc (PDict [(ustr ''success'', PBool False),
                   (ustr ''error'', PStr (ustr ''JSON'' @ [35299, 26512, 38169, 35823, 58, 32] @ msg))])],
       stderr = [], ending = Exit 0\<rparr> \<and>
     exit_status (ending (main fmt wr b a (JSONDecodeError msg))) = 0"
  using assms by (simp add: main_def document_mode_def json_error_def print_json_def)

theorem malformed_json_envelope_witness:
  "FSHDPDFProcessor_init unreachable = None \<and>
   stdin \<lparr>stdin = True, command = None\<rparr> \<and>
   utf8_stdout (PDict [(ustr ''success'', PBool False), (ustr ''error'', PStr (ustr ''JSON'' @ [35299, 26512, 38169, 35823, 58, 32] @ ustr ''Expecting property name enclosed in double quotes: line 1 column 2 (char 1)''))]) = None \<and>
   main repr_stub utf8_stdout unreachable \<lparr>stdin = True, command = None\<rparr> (JSONDecodeError (ustr ''Expecting property name enclosed in double quotes: line 1 column 2 (char 1)'')) =
      \<lparr>stdout = [JsonDoc (PDict [(ustr ''success'', PBool False),
                   (ustr ''error'', PStr (ustr ''JSON'' @ [35299, 26512, 38169, 35823, 58, 32] @ ustr ''Expecting property name enclosed in double quotes: line 1 column 2 (char 1)''))])],
       stderr = [], ending = Exit 0\<rparr>"
proof -
  have i: "FSHDPDFProcessor_init unreachable = None"
    by (simp add: unreachable_def)
  have s: "stdin \<lparr>stdin = True, command = None\<rparr>" by simp
  have w: "utf8_stdout (PDict [(ustr ''success'', PBool False), (ustr ''error'', PStr (ustr ''JSON'' @ [35299, 26512, 38169, 35823, 58, 32] @ ustr ''Expecting property name enclosed in double quotes: line 1 column 2 (char 1)''))]) = None"
    by (simp add: utf8_stdout_def is_surrogate_def)
  from malformed_json_envelope [where fmt = repr_stub and wr = utf8_stdout, OF i s w] i s w
  show ?thesis by simp
qed




text \<open>
  C9, as stated, fails. With a constructor that raises, an unknown command gives no
  envelope and status 1. And the envelope repeats the command value, so a command that
  holds a lone surrogate makes line 185 raise UnicodeEncodeError on a UTF-8 standard
  output: nothing is written and the status is 1.
\<close>

theorem unknown_command_crashes:
  "stdout (main repr_stub utf8_stdout no_client \<lparr>stdin = True, command = None\<rparr>
      (Loaded (PDict [(ustr ''command'', PStr (ustr ''bogus''))]))) = [] \<and>
   ending (main repr_stub utf8_stdout no_client \<lparr>stdin = True, command = None\<rparr>
      (Loaded (PDict [(ustr ''command'', PStr (ustr ''bogus''))]))) = Uncaught unreachable_error \<and>
   stdout (main repr_stub utf8_stdout (answering full_results) \<lparr>stdin = True, command = None\<rparr>
      (Loaded (PDict [(ustr ''command'', PStr [55296])]))) = [] \<and>
   ending (main repr_stub utf8_stdout (answering full_results) \<lparr>stdin = True, command = None\<rparr>
      (Loaded (PDict [(ustr ''command'', PStr [55296])]))) = Uncaught surrogate_error"
proof -
  have 1: "main repr_stub utf8_stdout no_client \<lparr>stdin = True, command = None\<rparr>
      (Loaded (PDict [(ustr ''command'', PStr (ustr ''bogus''))])) = uncaught unreachable_error"
    by (simp add: main_def no_client_def unreachable_def)
  have 2: "main repr_stub utf8_stdout (answering full_results) \<lparr>stdin = True, command = None\<rparr>
      (Loaded (PDict [(ustr ''command'', PStr [55296])])) = uncaught surrogate_error"
    by (simp add: main_def answering_def surrogate_command print_json_def surrogate_refused)
  show ?thesis by (simp add: 1 2 uncaught_def)
qed

text \<open>
  C9, amended. In document mode, with the bridge constructed, for an input object whose
  \<^verbatim>\<open>command\<close> is none of \<^verbatim>\<open>search\<close>, \<^verbatim>\<open>stats\<close>, \<^verbatim>\<open>health\<close>,
  the envelope is \<^verbatim>\<open>success\<close> false with \<^verbatim>\<open>error\<close> the source's prefix
  followed by the text of the command value (a string itself, otherwise what
  \<^verbatim>\<open>str\<close> gives). When line 185 writes its text, that envelope is all of standard
  output and the status is 0; when line 185 raises, nothing is written and the exception
  escapes.
\<close>

theorem unknown_command_envelope:
  assumes "FSHDPDFProcessor_init b = None" and "stdin a"
    and "field (PDict d) ''command'' = Some cmd"
    and "cmd \<noteq> PStr (ustr ''search'')" and "cmd \<noteq> PStr (ustr ''stats'')"
    and "cmd \<noteq> PStr (ustr ''health'')"
  shows "\<exists>text. command_text fmt cmd text \<and>
     (wr (PDict [(ustr ''success'', PBool False), (ustr ''error'', PStr ([26410, 30693, 21629, 20196, 58, 32] @ text))]) = None \<longrightarrow>
        main fmt wr b a (Loaded (PDict d)) =
          \<lparr>stdout = [JsonDoc (PDict [(ustr ''success'', PBool False),
                       (ustr ''error'', PStr ([26410, 30693, 21629, 20196, 58, 32] @ text))])],
           stderr = [], ending = Exit 0\<rparr>) \<and>
     (wr (PDict [(ustr ''success'', PBool False), (ustr ''error'', PStr ([26410, 30693, 21629, 20196, 58, 32] @ text))]) = Some e \<longrightarrow>
        main fmt wr b a (Loaded (PDict d)) =
          \<lparr>stdout = [], stderr = [Traceback e], ending = Uncaught e\<rparr>)"
proof (intro exI conjI)
  show "command_text fmt cmd (format_value fmt cmd)"
    by (rule format_value_text)
  show "wr (PDict [(ustr ''success'', PBool False),
                   (ustr ''error'', PStr ([26410, 30693, 21629, 20196, 58, 32] @ format_value fmt cmd))]) = None \<longrightarrow>
        main fmt wr b a (Loaded (PDict d)) =
          \<lparr>stdout = [JsonDoc (PDict [(ustr ''success'', PBool False),
                       (ustr ''error'', PStr ([26410, 30693, 21629, 20196, 58, 32] @ format_value fmt cmd))])],
           stderr = [], ending = Exit 0\<rparr>"
    using assms
    by (simp add: main_def document_mode_def unknown_command_def print_json_def)
  show "wr (PDict [(ustr ''success'', PBool False),
                   (ustr ''error'', PStr ([26410, 30693, 21629, 20196, 58, 32] @ format_value fmt cmd))]) = Some e \<longrightarrow>
        main fmt wr b a (Loaded (PDict d)) =
          \<lparr>stdout = [], stderr = [Traceback e], ending = Uncaught e\<rparr>"
    using assms
    by (simp add: main_def document_mode_def unknown_command_def print_json_def uncaught_def)
qed

theorem unknown_command_envelope_witness:
  "FSHDPDFProcessor_init unreachable = None \<and>
   stdin \<lparr>stdin = True, command = None\<rparr> \<and>
   field (PDict [(ustr ''command'', PStr (ustr ''bogus''))]) ''command'' = Some (PStr (ustr ''bogus'')) \<and>
   utf8_stdout (PDict [(ustr ''success'', PBool False),
                       (ustr ''error'', PStr ([26410, 30693, 21629, 20196, 58, 32] @ ustr ''bogus''))]) = None \<and>
   main repr_stub utf8_stdout unreachable \<lparr>stdin = True, command = None\<rparr>
       (Loaded (PDict [(ustr ''command'', PStr (ustr ''bogus''))])) =
      \<lparr>stdout = [JsonDoc (PDict [(ustr ''success'', PBool False),
                   (ustr ''error'', PStr ([26410, 30693, 21629, 20196, 58, 32] @ ustr ''bogus''))])],
       stderr = [], ending = Exit 0\<rparr>"
proof -
  have i: "FSHDPDFProcessor_init unreachable = None"
    by (simp add: unreachable_def)
  have s: "stdin \<lparr>stdin = True, command = None\<rparr>" by simp
  have c: "field (PDict [(ustr ''command'', PStr (ustr ''bogus''))]) ''command'' = Some (PStr (ustr ''bogus''))"
    by simp
  have n: "PStr (ustr ''bogus'') \<noteq> PStr (ustr ''search'')" "PStr (ustr ''bogus'') \<noteq> PStr (ustr ''stats'')"
    "PStr (ustr ''bogus'') \<noteq> PStr (ustr ''health'')"
    by simp_all
  have w: "utf8_stdout (PDict [(ustr ''success'', PBool False),
                       (ustr ''error'', PStr ([26410, 30693, 21629, 20196, 58, 32] @ ustr ''bogus''))]) = None"
    by (simp add: utf8_stdout_def is_surrogate_def)
  note th = unknown_command_envelope [OF i s c n, where fmt = repr_stub and wr = utf8_stdout
      and e = surrogate_error]
  from th obtain tx where
    t: "command_text repr_stub (PStr (ustr ''bogus'')) tx"
    and m: "utf8_stdout (PDict [(ustr ''success'', PBool False), (ustr ''error'', PStr ([26410, 30693, 21629, 20196, 58, 32] @ tx))]) = None \<longrightarrow>
        main repr_stub utf8_stdout unreachable \<lparr>stdin = True, command = None\<rparr>
          (Loaded (PDict [(ustr ''command'', PStr (ustr ''bogus''))])) =
          \<lparr>stdout = [JsonDoc (PDict [(ustr ''success'', PBool False),
                       (ustr ''error'', PStr ([26410, 30693, 21629, 20196, 58, 32] @ tx))])],
           stderr = [], ending = Exit 0\<rparr>"
    by (elim exE conjE) (rule that)
  from t have e: "tx = ustr ''bogus''" by simp
  from m [unfolded e] w
  have r: "main repr_stub utf8_stdout unreachable \<lparr>stdin = True, command = None\<rparr>
       (Loaded (PDict [(ustr ''command'', PStr (ustr ''bogus''))])) =
      \<lparr>stdout = [JsonDoc (PDict [(ustr ''success'', PBool False),
                   (ustr ''error'', PStr ([26410, 30693, 21629, 20196, 58, 32] @ ustr ''bogus''))])],
       stderr = [], ending = Exit 0\<rparr>"
    by (rule mp)
  show ?thesis by (intro conjI i s c w r)
qed

text \<open>
  C10. In document mode, a standard input that parses to a value that is not an object
  ends the process with an exception nobody catches: nothing is written to standard
  output and the status is not zero. With the bridge constructed, the exception is the
  AttributeError of reading \<^verbatim>\<open>command\<close> with \<^verbatim>\<open>.get\<close>.
\<close>

theorem non_mapping_uncaught:
  assumes "stdin a" and "type_name v \<noteq> ''dict''"
  shows "stdout (main fmt wr b a (Loaded v)) = [] \<and>
     (\<exists>e. ending (main fmt wr b a (Loaded v)) = Uncaught e) \<and>
     exit_status (ending (main fmt wr b a (Loaded v))) \<noteq> 0 \<and>
     (FSHDPDFProcessor_init b = None \<longrightarrow>
        ending (main fmt wr b a (Loaded v)) =
          Uncaught (Exn ''AttributeError''
            (ustr ([CHR 0x27] @ type_name v @ [CHR 0x27] @ '' object has no attribute '' @
                   [CHR 0x27] @ ''get'' @ [CHR 0x27]))))"
  using assms
  by (cases v) (auto simp: main_def document_mode_def uncaught_def split: option.splits)

theorem non_mapping_uncaught_witness:
  "stdin \<lparr>stdin = True, command = None\<rparr> \<and>
   type_name (PList [PInt 1, PInt 2]) \<noteq> ''dict'' \<and>
   FSHDPDFProcessor_init (answering full_results) = None \<and>
   stdout (main repr_stub utf8_stdout (answering full_results) \<lparr>stdin = True, command = None\<rparr>
             (Loaded (PList [PInt 1, PInt 2]))) = [] \<and>
   ending (main repr_stub utf8_stdout (answering full_results) \<lparr>stdin = True, command = None\<rparr>
             (Loaded (PList [PInt 1, PInt 2]))) =
     Uncaught (Exn ''AttributeError'' (ustr ([CHR 0x27] @ ''list'' @ [CHR 0x27] @ '' object has no attribute '' @
                   [CHR 0x27] @ ''get'' @ [CHR 0x27]))) \<and>
   exit_status (ending (main repr_stub utf8_stdout (answering full_results) \<lparr>stdin = True, command = None\<rparr>
             (Loaded (PList [PInt 1, PInt 2])))) = 1"
proof -
  have s: "stdin \<lparr>stdin = True, command = None\<rparr>" by simp
  have t: "type_name (PList [PInt 1, PInt 2]) \<noteq> ''dict''" by simp
  have i: "FSHDPDFProcessor_init (answering full_results) = None"
    by (simp add: answering_def)
  from non_mapping_uncaught [OF s t, of repr_stub utf8_stdout "answering full_results"] i
  have "stdout (main repr_stub utf8_stdout (answering full_results) \<lparr>stdin = True, command = None\<rparr>
             (Loaded (PList [PInt 1, PInt 2]))) = []"
    and "ending (main repr_stub utf8_stdout (answering full_results) \<lparr>stdin = True, command = None\<rparr>
             (Loaded (PList [PInt 1, PInt 2]))) =
     Uncaught (Exn ''AttributeError'' (ustr ([CHR 0x27] @ ''list'' @ [CHR 0x27] @ '' object has no attribute '' @
                   [CHR 0x27] @ ''get'' @ [CHR 0x27])))"
    by simp_all
  with s t i show ?thesis by simp
qed

end
